theory Spec2Isabelle
  imports Complex_Main "HOL-Library.Sublist"
begin

section \<open>Python values used by the routing engine\<close>

text \<open>
  The floats of the cost function are modelled as reals (arithmetic is taken exactly),
  and \<^verbatim>\<open>float('inf')\<close>, which the cost function uses as the sentinel of a blocked edge,
  is a constructor of its own; the one float product of the tag normalizer is modelled
  in double precision there. A \<^verbatim>\<open>dict\<close> with string keys is an association list read through
  \<open>map_of\<close>; \<^verbatim>\<open>d.get(k, dflt)\<close> is \<open>dict_get\<close> and \<^verbatim>\<open>d[k]\<close> on a key that the
  literal table contains is \<open>dict_item\<close>.
\<close>

datatype cost = Cost real | Blocked

definition dict_get :: "('k \<times> 'v) list \<Rightarrow> 'k \<Rightarrow> 'v \<Rightarrow> 'v" where
  "dict_get d k dflt = (case map_of d k of None \<Rightarrow> dflt | Some v \<Rightarrow> v)"

definition dict_item :: "('k \<times> 'v) list \<Rightarrow> 'k \<Rightarrow> 'v" where
  "dict_item d k = the (map_of d k)"

text \<open>Truthiness of an optional string and of an optional float.\<close>

definition truthy_str :: "string option \<Rightarrow> bool" where
  "truthy_str s = (case s of None \<Rightarrow> False | Some x \<Rightarrow> x \<noteq> [])"

definition truthy_float :: "real option \<Rightarrow> bool" where
  "truthy_float x = (case x of None \<Rightarrow> False | Some r \<Rightarrow> r \<noteq> 0)"

section \<open>Weight tables (app/utils/osm\_weights.py)\<close>

definition HIGHWAY_WEIGHTS :: "(string \<times> real) list" where
  "HIGHWAY_WEIGHTS =
    [(''motorway'', 1.0), (''motorway_link'', 1.1), (''trunk'', 1.2), (''trunk_link'', 1.3),
     (''primary'', 1.4), (''primary_link'', 1.5), (''secondary'', 1.6),
     (''secondary_link'', 1.7), (''tertiary'', 1.8), (''tertiary_link'', 1.9),
     (''unclassified'', 2.0), (''residential'', 2.1), (''living_street'', 2.5),
     (''service'', 3.0), (''track'', 5.0), (''path'', 10.0), (''footway'', 15.0),
     (''default'', 2.5)]"

definition SURFACE_WEIGHTS :: "(string \<times> real) list" where
  "SURFACE_WEIGHTS =
    [(''asphalt'', 1.0), (''concrete'', 1.0), (''paved'', 1.1), (''concrete:plates'', 1.3),
     (''paving_stones'', 1.4), (''compacted'', 2.0), (''fine_gravel'', 2.2),
     (''gravel'', 3.0), (''unpaved'', 3.5), (''dirt'', 4.0), (''ground'', 4.5),
     (''grass'', 5.0), (''sand'', 6.0), (''mud'', 8.0), (''default'', 2.0)]"

definition SMOOTHNESS_WEIGHTS :: "(string \<times> real) list" where
  "SMOOTHNESS_WEIGHTS =
    [(''excellent'', 1.0), (''good'', 1.2), (''intermediate'', 1.5), (''bad'', 3.0),
     (''very_bad'', 5.0), (''horrible'', 8.0), (''very_horrible'', 10.0),
     (''impassable'', 100.0), (''default'', 1.5)]"

definition SAFETY_FACTORS_lit :: "(string \<times> real) list" where
  "SAFETY_FACTORS_lit = [(''yes'', 0.8), (''no'', 1.3), (''default'', 1.0)]"

definition SAFETY_FACTORS_traffic_signals :: "(string \<times> real) list" where
  "SAFETY_FACTORS_traffic_signals = [(''yes'', 0.9), (''default'', 1.0)]"

definition get_speed_penalty :: "int \<Rightarrow> real" where
  "get_speed_penalty maxspeed =
     (if maxspeed \<le> 40 then 1.0
      else if maxspeed \<le> 60 then 1.2
      else if maxspeed \<le> 80 then 1.5
      else if maxspeed \<le> 100 then 2.0
      else 3.0)"

definition DEFAULTS_maxspeed :: int where
  "DEFAULTS_maxspeed = 50"

definition DEFAULTS_highway :: string where
  "DEFAULTS_highway = ''default''"

record multipliers =
  m_distance :: real
  m_highway_type :: real
  m_surface :: real
  m_smoothness :: real
  m_safety :: real

definition CRITERIA_MULTIPLIERS :: "(string \<times> multipliers) list" where
  "CRITERIA_MULTIPLIERS =
    [(''fastest'',
        \<lparr>m_distance = 1.0, m_highway_type = 0.5, m_surface = 0.1, m_smoothness = 0.1,
         m_safety = 0.0\<rparr>),
     (''best_surface'',
        \<lparr>m_distance = 1.0, m_highway_type = 0.3, m_surface = 2.0, m_smoothness = 2.0,
         m_safety = 0.1\<rparr>),
     (''safest'',
        \<lparr>m_distance = 1.0, m_highway_type = 0.5, m_surface = 0.5, m_smoothness = 0.5,
         m_safety = 3.0\<rparr>),
     (''truck_compatible'',
        \<lparr>m_distance = 1.0, m_highway_type = 1.0, m_surface = 1.5, m_smoothness = 1.0,
         m_safety = 0.5\<rparr>)]"

section \<open>Data model (app/models/schemas.py and the edge dictionaries)\<close>

datatype vtype = Car | Truck | Motorcycle

record vehicle_params =
  vehicle_type :: vtype
  height :: "real option"
  weight :: "real option"

text \<open>
  The attribute dictionary of an edge, with the keys that scoring and routing read.
  A field is \<open>None\<close> when \<^verbatim>\<open>edge_data.get(key)\<close> gives \<^verbatim>\<open>None\<close>. Three keys are read
  with a default, so there the absence of the key is kept apart from a stored value:
  \<open>distance\<close> and \<open>highway\<close> are \<open>None\<close> when the key is missing (the graph builder never
  stores \<^verbatim>\<open>None\<close> under them), and \<open>maxspeed\<close> is \<open>None\<close> when the key is missing,
  \<open>Some None\<close> when the key holds \<^verbatim>\<open>None\<close> and \<open>Some (Some n)\<close> when it holds an integer.
  \<open>connector\<close> is the truth value of \<^verbatim>\<open>edge_data.get("connector")\<close>. The keys
  \<^verbatim>\<open>tracktype\<close>, \<^verbatim>\<open>lanes\<close>, \<^verbatim>\<open>oneway\<close> and \<^verbatim>\<open>name\<close> are stored on an edge but read by
  neither service and are left out.
\<close>

record edge_data =
  distance :: "real option"
  connector :: bool
  highway :: "string option"
  surface :: "string option"
  smoothness :: "string option"
  lit :: "string option"
  traffic_signals :: "string option"
  maxspeed :: "int option option"
  maxheight :: "real option"
  maxweight :: "real option"
  hgv :: "string option"
  access :: "string option"

section \<open>Cost function (app/services/scoring.py)\<close>

definition get_highway_weight :: "edge_data \<Rightarrow> real" where
  "get_highway_weight e =
     (let hw = (case highway e of None \<Rightarrow> DEFAULTS_highway | Some h \<Rightarrow> h)
      in dict_get HIGHWAY_WEIGHTS hw (dict_item HIGHWAY_WEIGHTS ''default'') - 1.0)"

definition get_surface_weight :: "edge_data \<Rightarrow> real" where
  "get_surface_weight e =
     (if \<not> truthy_str (surface e) then 0.0
      else dict_get SURFACE_WEIGHTS (the (surface e)) (dict_item SURFACE_WEIGHTS ''default'')
           - 1.0)"

definition get_smoothness_weight :: "edge_data \<Rightarrow> real" where
  "get_smoothness_weight e =
     (if \<not> truthy_str (smoothness e) then 0.0
      else dict_get SMOOTHNESS_WEIGHTS (the (smoothness e))
             (dict_item SMOOTHNESS_WEIGHTS ''default'') - 1.0)"

text \<open>
  The three factors that \<^verbatim>\<open>_get_safety_weight\<close> multiplies into \<^verbatim>\<open>weight_factor\<close>, in
  its order: lighting, traffic signals and speed.
\<close>

definition lit_factor :: "edge_data \<Rightarrow> real" where
  "lit_factor e =
     (if truthy_str (lit e)
      then dict_get SAFETY_FACTORS_lit (the (lit e)) (dict_item SAFETY_FACTORS_lit ''default'')
      else dict_item SAFETY_FACTORS_lit ''default'')"

definition signals_factor :: "edge_data \<Rightarrow> real" where
  "signals_factor e =
     (if truthy_str (traffic_signals e) then dict_item SAFETY_FACTORS_traffic_signals ''yes''
      else 1.0)"

text \<open>
  \<^verbatim>\<open>maxspeed = edge_data.get("maxspeed", DEFAULTS["maxspeed"])\<close>: the default is taken
  only when the key is missing; a stored \<^verbatim>\<open>None\<close> is returned as it is.
\<close>

definition maxspeed_or_default :: "edge_data \<Rightarrow> int option" where
  "maxspeed_or_default e =
     (case maxspeed e of None \<Rightarrow> Some DEFAULTS_maxspeed | Some v \<Rightarrow> v)"

definition speed_factor :: "edge_data \<Rightarrow> real" where
  "speed_factor e =
     (case maxspeed_or_default e of
        None \<Rightarrow> 1.0
      | Some n \<Rightarrow> if n \<noteq> 0 then get_speed_penalty n else 1.0)"

definition get_safety_weight :: "edge_data \<Rightarrow> real" where
  "get_safety_weight e = 1.0 * lit_factor e * signals_factor e * speed_factor e - 1.0"

definition get_truck_restriction_penalty :: "edge_data \<Rightarrow> vehicle_params \<Rightarrow> cost" where
  "get_truck_restriction_penalty e v =
     (if truthy_float (maxheight e) \<and> truthy_float (height v)
         \<and> the (height v) > the (maxheight e) then Blocked
      else if truthy_float (maxweight e) \<and> truthy_float (weight v)
         \<and> the (weight v) > the (maxweight e) then Blocked
      else if hgv e = Some ''no'' \<and> vehicle_type v = Truck then Blocked
      else if access e \<in> {Some ''private'', Some ''no''} \<and> vehicle_type v = Truck
      then Blocked
      else Cost (1.0 * (if hgv e = Some ''destination'' then 2.0 else 1.0)
                     * (if access e = Some ''delivery'' then 1.5 else 1.0)))"

text \<open>
  \<^verbatim>\<open>distance = edge_data.get("distance", 1.0)\<close> and
  \<^verbatim>\<open>multipliers = CRITERIA_MULTIPLIERS.get(criterion, CRITERIA_MULTIPLIERS["fastest"])\<close>.
\<close>

definition edge_distance :: "edge_data \<Rightarrow> real" where
  "edge_distance e = (case distance e of None \<Rightarrow> 1.0 | Some x \<Rightarrow> x)"

definition criterion_row :: "string \<Rightarrow> multipliers" where
  "criterion_row criterion =
     dict_get CRITERIA_MULTIPLIERS criterion (dict_item CRITERIA_MULTIPLIERS ''fastest'')"

text \<open>The four parenthesised factors of the cost product, and the product itself.\<close>

definition highway_term :: "edge_data \<Rightarrow> string \<Rightarrow> real" where
  "highway_term e criterion = 1 + get_highway_weight e * m_highway_type (criterion_row criterion)"

definition surface_term :: "edge_data \<Rightarrow> string \<Rightarrow> real" where
  "surface_term e criterion = 1 + get_surface_weight e * m_surface (criterion_row criterion)"

definition smoothness_term :: "edge_data \<Rightarrow> string \<Rightarrow> real" where
  "smoothness_term e criterion =
     1 + get_smoothness_weight e * m_smoothness (criterion_row criterion)"

definition safety_term :: "edge_data \<Rightarrow> string \<Rightarrow> real" where
  "safety_term e criterion = 1 + get_safety_weight e * m_safety (criterion_row criterion)"

definition total_weight :: "edge_data \<Rightarrow> string \<Rightarrow> real" where
  "total_weight e criterion =
     edge_distance e * m_distance (criterion_row criterion)
       * highway_term e criterion * surface_term e criterion
       * smoothness_term e criterion * safety_term e criterion"

definition calculate_edge_weight ::
  "edge_data \<Rightarrow> string \<Rightarrow> vehicle_params option \<Rightarrow> cost" where
  "calculate_edge_weight e criterion vehicle =
     (if connector e then Cost (edge_distance e)
      else if criterion = ''truck_compatible'' \<and> vehicle \<noteq> None
      then (case get_truck_restriction_penalty e (the vehicle) of
              Blocked \<Rightarrow> Blocked
            | Cost p \<Rightarrow> Cost (total_weight e criterion * p))
      else Cost (total_weight e criterion))"

section \<open>Alert generator (app/services/scoring.py)\<close>

datatype level = Green | Yellow | Red

record coordinates =
  lat :: real
  lon :: real

record alert =
  level :: level
  message :: string
  location :: "coordinates option"

text \<open>
  Decimal rendering of an integer inside an f-string. The rendering of a float
  (\<^verbatim>\<open>{maxheight}\<close>, \<^verbatim>\<open>{vehicle.height}\<close>) is Python's \<^verbatim>\<open>repr\<close>; it is taken as the
  parameter \<open>fmt\<close> of the alert generator.
\<close>

definition digit_char :: "nat \<Rightarrow> char" where
  "digit_char n = ''0123456789'' ! n"

function str_of_nat :: "nat \<Rightarrow> string" where
  "str_of_nat n = (if n < 10 then [digit_char n] else str_of_nat (n div 10) @ [digit_char (n mod 10)])"
  by pat_completeness auto
termination
  by (relation "measure id") auto

declare str_of_nat.simps [simp del]

definition str_of_int :: "int \<Rightarrow> string" where
  "str_of_int i = (if i < 0 then CHR ''-'' # str_of_nat (nat (- i)) else str_of_nat (nat i))"

definition mk_location :: "real option \<Rightarrow> real option \<Rightarrow> coordinates option" where
  "mk_location node_lat node_lon =
     (case node_lat of None \<Rightarrow> None
      | Some la \<Rightarrow> (case node_lon of None \<Rightarrow> None | Some lo \<Rightarrow> Some \<lparr>lat = la, lon = lo\<rparr>))"

definition surface_alerts :: "coordinates option \<Rightarrow> edge_data \<Rightarrow> alert list" where
  "surface_alerts loc e =
     (case surface e of
        None \<Rightarrow> []
      | Some s \<Rightarrow>
          if s \<in> set [''unpaved'', ''dirt'', ''gravel'', ''mud'']
          then [\<lparr>level = Yellow, message = ''Unpaved road: '' @ s, location = loc\<rparr>]
          else if s \<in> set [''mud'', ''sand'']
          then [\<lparr>level = Red, message = ''Poor surface condition: '' @ s, location = loc\<rparr>]
          else [])"

definition smoothness_alerts :: "coordinates option \<Rightarrow> edge_data \<Rightarrow> alert list" where
  "smoothness_alerts loc e =
     (case smoothness e of
        None \<Rightarrow> []
      | Some s \<Rightarrow>
          if s \<in> set [''bad'', ''very_bad'']
          then [\<lparr>level = Yellow, message = ''Road quality: '' @ s, location = loc\<rparr>]
          else if s \<in> set [''horrible'', ''very_horrible'', ''impassable'']
          then [\<lparr>level = Red, message = ''Very poor road quality: '' @ s, location = loc\<rparr>]
          else [])"

definition lit_alerts :: "coordinates option \<Rightarrow> edge_data \<Rightarrow> alert list" where
  "lit_alerts loc e =
     (if lit e = Some ''no''
      then [\<lparr>level = Yellow, message = ''No street lighting'', location = loc\<rparr>]
      else [])"

definition speed_alerts :: "coordinates option \<Rightarrow> edge_data \<Rightarrow> alert list" where
  "speed_alerts loc e =
     (case maxspeed e of
        Some (Some n) \<Rightarrow>
          if n \<noteq> 0 \<and> n > 100
          then [\<lparr>level = Yellow, message = ''High speed road: '' @ str_of_int n @ '' km/h'',
                 location = loc\<rparr>]
          else []
      | _ \<Rightarrow> [])"

definition height_alerts ::
  "(real \<Rightarrow> string) \<Rightarrow> coordinates option \<Rightarrow> edge_data \<Rightarrow> vehicle_params \<Rightarrow> alert list" where
  "height_alerts fmt loc e v =
     (if truthy_float (maxheight e) then
        (if truthy_float (height v) \<and> the (height v) > the (maxheight e)
         then [\<lparr>level = Red,
                 message = ''Height restriction: '' @ fmt (the (maxheight e)) @ ''m (vehicle: ''
                           @ fmt (the (height v)) @ ''m)'',
                 location = loc\<rparr>]
         else if truthy_float (height v) \<and> the (height v) > the (maxheight e) * 0.9
         then [\<lparr>level = Yellow,
                 message = ''Tight clearance: '' @ fmt (the (maxheight e)) @ ''m (vehicle: ''
                           @ fmt (the (height v)) @ ''m)'',
                 location = loc\<rparr>]
         else [])
      else [])"

definition weight_alerts ::
  "(real \<Rightarrow> string) \<Rightarrow> coordinates option \<Rightarrow> edge_data \<Rightarrow> vehicle_params \<Rightarrow> alert list" where
  "weight_alerts fmt loc e v =
     (if truthy_float (maxweight e) then
        (if truthy_float (weight v) \<and> the (weight v) > the (maxweight e)
         then [\<lparr>level = Red,
                 message = ''Weight restriction: '' @ fmt (the (maxweight e)) @ ''t (vehicle: ''
                           @ fmt (the (weight v)) @ ''t)'',
                 location = loc\<rparr>]
         else if truthy_float (weight v) \<and> the (weight v) > the (maxweight e) * 0.9
         then [\<lparr>level = Yellow,
                 message = ''Near weight limit: '' @ fmt (the (maxweight e)) @ ''t (vehicle: ''
                           @ fmt (the (weight v)) @ ''t)'',
                 location = loc\<rparr>]
         else [])
      else [])"

definition hgv_alerts :: "coordinates option \<Rightarrow> edge_data \<Rightarrow> alert list" where
  "hgv_alerts loc e =
     (if hgv e = Some ''no''
      then [\<lparr>level = Red, message = ''Trucks not allowed (HGV restriction)'', location = loc\<rparr>]
      else if hgv e = Some ''destination''
      then [\<lparr>level = Yellow, message = ''Destination traffic only for trucks'',
             location = loc\<rparr>]
      else [])"

definition access_alerts :: "coordinates option \<Rightarrow> edge_data \<Rightarrow> alert list" where
  "access_alerts loc e =
     (case access e of
        None \<Rightarrow> []
      | Some a \<Rightarrow>
          if a \<in> set [''private'', ''no'']
          then [\<lparr>level = Red, message = ''Access restricted: '' @ a, location = loc\<rparr>]
          else if a \<in> set [''delivery'', ''destination'']
          then [\<lparr>level = Yellow, message = ''Limited access: '' @ a, location = loc\<rparr>]
          else [])"

definition generate_alerts_for_edge ::
  "(real \<Rightarrow> string) \<Rightarrow> edge_data \<Rightarrow> vehicle_params option \<Rightarrow> real option \<Rightarrow> real option
     \<Rightarrow> alert list" where
  "generate_alerts_for_edge fmt e vehicle node_lat node_lon =
     (let loc = mk_location node_lat node_lon in
      if connector e then []
      else surface_alerts loc e @ smoothness_alerts loc e @ lit_alerts loc e @ speed_alerts loc e
           @ (case vehicle of
                None \<Rightarrow> []
              | Some v \<Rightarrow>
                  if vehicle_type v = Truck
                  then height_alerts fmt loc e v @ weight_alerts fmt loc e v @ hgv_alerts loc e
                       @ access_alerts loc e
                  else []))"

fun py_join :: "string \<Rightarrow> string list \<Rightarrow> string" where
  "py_join sep [] = []"
| "py_join sep [x] = x"
| "py_join sep (x # y # ys) = x @ sep @ py_join sep (y # ys)"

definition summarize_alerts :: "alert list \<Rightarrow> string" where
  "summarize_alerts alerts =
     (if alerts = [] then ''Route is clear with no warnings''
      else
        let red_count = length (filter (\<lambda>a. level a = Red) alerts);
            yellow_count = length (filter (\<lambda>a. level a = Yellow) alerts);
            parts = (if red_count > 0 then [str_of_nat red_count @ '' critical alert(s)''] else [])
                    @ (if yellow_count > 0 then [str_of_nat yellow_count @ '' caution(s)'']
                       else [])
        in if parts \<noteq> [] then py_join '', '' parts else ''Route is clear'')"

section \<open>Alert deduplication (app/services/routing.py)\<close>

fun level_rank :: "level \<Rightarrow> nat" where
  "level_rank Red = 0"
| "level_rank Yellow = 1"
| "level_rank Green = 2"

text \<open>
  The loop over the sorted alerts, with its two variables \<^verbatim>\<open>seen_messages\<close> and
  \<^verbatim>\<open>unique_alerts\<close>. Python's \<^verbatim>\<open>sorted\<close> is stable, as \<open>sort_key\<close> is.
\<close>

fun dedup_loop :: "string set \<Rightarrow> alert list \<Rightarrow> alert list \<Rightarrow> alert list" where
  "dedup_loop seen_messages unique_alerts [] = unique_alerts"
| "dedup_loop seen_messages unique_alerts (a # sorted_alerts) =
     (if message a \<notin> seen_messages
      then dedup_loop (insert (message a) seen_messages) (unique_alerts @ [a]) sorted_alerts
      else dedup_loop seen_messages unique_alerts sorted_alerts)"

definition unique_alerts_of :: "alert list \<Rightarrow> alert list" where
  "unique_alerts_of alerts = dedup_loop {} [] (sort_key (\<lambda>a. level_rank (level a)) alerts)"

definition deduplicate_alerts :: "alert list \<Rightarrow> alert list" where
  "deduplicate_alerts alerts = take 10 (unique_alerts_of alerts)"

section \<open>Route planner (app/services/routing.py)\<close>

text \<open>
  The multigraph \<^verbatim>\<open>G\<close>: its node table, and its edges in the order in which
  \<^verbatim>\<open>G.edges(data=True)\<close> yields them, where the parallel edges of a pair of nodes come in
  the order of their insertion. Node ids are the two terminals and the OSM ids.
\<close>

datatype node = Origin | Destination | OsmNode int

record graph =
  nodes :: "node \<rightharpoonup> coordinates"
  edges :: "(node \<times> node \<times> edge_data) list"

text \<open>
  The weighted \<^verbatim>\<open>DiGraph\<close> holds one edge for a pair of nodes: \<^verbatim>\<open>add_edge\<close> on a pair
  that is already there overwrites its \<^verbatim>\<open>weight\<close>. The attributes copied beside the
  weight are not read again (the planner goes back to \<^verbatim>\<open>G\<close> for them) and are not kept.
\<close>

record weighted_graph =
  wnodes :: "node \<rightharpoonup> coordinates"
  wweight :: "node \<times> node \<rightharpoonup> real"

fun add_weighted_edges ::
  "string \<Rightarrow> vehicle_params option \<Rightarrow> (node \<times> node \<rightharpoonup> real)
     \<Rightarrow> (node \<times> node \<times> edge_data) list \<Rightarrow> (node \<times> node \<rightharpoonup> real)" where
  "add_weighted_edges criterion vehicle w [] = w"
| "add_weighted_edges criterion vehicle w ((u, v, d) # es) =
     (case calculate_edge_weight d criterion vehicle of
        Blocked \<Rightarrow> add_weighted_edges criterion vehicle w es
      | Cost x \<Rightarrow> add_weighted_edges criterion vehicle (w((u, v) \<mapsto> x)) es)"

definition create_weighted_graph ::
  "graph \<Rightarrow> string \<Rightarrow> vehicle_params option \<Rightarrow> weighted_graph" where
  "create_weighted_graph G criterion vehicle =
     \<lparr>wnodes = nodes G, wweight = add_weighted_edges criterion vehicle Map.empty (edges G)\<rparr>"

text \<open>
  \<^verbatim>\<open>G.get_edge_data(node1, node2)\<close> followed by \<^verbatim>\<open>list(edge_data.values())[0]\<close>: the
  first of the parallel edges, and \<^verbatim>\<open>None\<close> when the pair has no edge.
\<close>

definition parallel_edges :: "graph \<Rightarrow> node \<Rightarrow> node \<Rightarrow> edge_data list" where
  "parallel_edges G u v = map (\<lambda>(a, b, d). d) (filter (\<lambda>(a, b, d). a = u \<and> b = v) (edges G))"

definition get_edge_data :: "graph \<Rightarrow> node \<Rightarrow> node \<Rightarrow> edge_data option" where
  "get_edge_data G u v = (case parallel_edges G u v of [] \<Rightarrow> None | d # ds \<Rightarrow> Some d)"

datatype error = NetworkXNoPath | KeyError | AttributeError | ValueError | IndexError
  | OverflowError | Exception string

record route =
  rtype :: string
  total_distance :: real
  geometry :: "(real \<times> real) list"
  alerts :: "alert list"
  summary :: string

text \<open>
  The loop over the consecutive nodes of the path, with the three accumulators of the
  source. A node outside \<^verbatim>\<open>G\<close> is a \<^verbatim>\<open>KeyError\<close>, a pair without an edge an
  \<^verbatim>\<open>AttributeError\<close> (\<^verbatim>\<open>None.get\<close>). The route reports \<^verbatim>\<open>round(total_distance, 2)\<close>;
  the model keeps the sum.
\<close>

fun walk_path ::
  "(real \<Rightarrow> string) \<Rightarrow> graph \<Rightarrow> vehicle_params option \<Rightarrow> node list
     \<Rightarrow> real \<times> (real \<times> real) list \<times> alert list
     \<Rightarrow> error + real \<times> (real \<times> real) list \<times> alert list" where
  "walk_path fmt G vehicle (node1 # node2 # rest) (total_km, geom, all_alerts) =
     (case nodes G node1 of
        None \<Rightarrow> Inl KeyError
      | Some node1_data \<Rightarrow>
          (case nodes G node2 of
             None \<Rightarrow> Inl KeyError
           | Some node2_data \<Rightarrow>
               (case get_edge_data G node1 node2 of
                  None \<Rightarrow> Inl AttributeError
                | Some ed \<Rightarrow>
                    walk_path fmt G vehicle (node2 # rest)
                      (total_km + (case distance ed of None \<Rightarrow> 0 | Some x \<Rightarrow> x),
                       geom @ [(lon node1_data, lat node1_data)],
                       all_alerts @
                         (if \<not> connector ed
                          then generate_alerts_for_edge fmt ed vehicle
                                 (Some (lat node2_data)) (Some (lon node2_data))
                          else [])))))"
| "walk_path fmt G vehicle path acc = Inr acc"

definition route_type_map :: "(string \<times> string) list" where
  "route_type_map =
     [(''fastest'', ''fastest''), (''best_surface'', ''best_surface''), (''safest'', ''safest''),
      (''truck_compatible'', ''truck_compatible'')]"

text \<open>
  \<^verbatim>\<open>nx.shortest_path\<close> belongs to NetworkX and is the parameter \<open>shortest_path\<close>: it gets the
  weighted graph and returns a node sequence or raises, \<^verbatim>\<open>NetworkXNoPath\<close> among others.
\<close>

definition calculate_single_route ::
  "(weighted_graph \<Rightarrow> error + node list) \<Rightarrow> (real \<Rightarrow> string) \<Rightarrow> graph \<Rightarrow> string
     \<Rightarrow> vehicle_params option \<Rightarrow> error + route option" where
  "calculate_single_route shortest_path fmt G criterion vehicle =
     (case shortest_path (create_weighted_graph G criterion vehicle) of
        Inl NetworkXNoPath \<Rightarrow> Inr None
      | Inl e \<Rightarrow> Inl e
      | Inr path \<Rightarrow>
          (case walk_path fmt G vehicle path (0, [], []) of
             Inl e \<Rightarrow> Inl e
           | Inr (total_km, geom, all_alerts) \<Rightarrow>
               (case nodes G Destination of
                  None \<Rightarrow> Inl KeyError
                | Some dest_data \<Rightarrow>
                    let unique_alerts = deduplicate_alerts all_alerts;
                        summ = summarize_alerts unique_alerts
                    in (case map_of route_type_map criterion of
                          None \<Rightarrow> Inl KeyError
                        | Some t \<Rightarrow>
                            Inr (Some \<lparr>rtype = t, total_distance = total_km,
                                       geometry = geom @ [(lon dest_data, lat dest_data)],
                                       alerts = unique_alerts, summary = summ\<rparr>)))))"

text \<open>
  The loop of \<^verbatim>\<open>calculate_routes\<close> over the criteria: a route is appended, \<^verbatim>\<open>None\<close> is
  passed over, and both \<^verbatim>\<open>except\<close> clauses continue with the next criterion.
\<close>

fun routes_loop ::
  "(weighted_graph \<Rightarrow> error + node list) \<Rightarrow> (real \<Rightarrow> string) \<Rightarrow> graph
     \<Rightarrow> vehicle_params option \<Rightarrow> route list \<Rightarrow> string list \<Rightarrow> route list" where
  "routes_loop shortest_path fmt G vehicle routes [] = routes"
| "routes_loop shortest_path fmt G vehicle routes (criterion # criteria) =
     (case calculate_single_route shortest_path fmt G criterion vehicle of
        Inr (Some r) \<Rightarrow> routes_loop shortest_path fmt G vehicle (routes @ [r]) criteria
      | Inr None \<Rightarrow> routes_loop shortest_path fmt G vehicle routes criteria
      | Inl e \<Rightarrow> routes_loop shortest_path fmt G vehicle routes criteria)"

definition criteria_for :: "vehicle_params option \<Rightarrow> string list" where
  "criteria_for vehicle =
     [''fastest'', ''best_surface'', ''safest'']
     @ (case vehicle of
          None \<Rightarrow> []
        | Some v \<Rightarrow> if vehicle_type v = Truck then [''truck_compatible''] else [])"

text \<open>
  \<^verbatim>\<open>calculate_routes\<close> from the point where the graph has been built (the Overpass query
  before it is input and output).
\<close>

definition calculate_routes ::
  "(weighted_graph \<Rightarrow> error + node list) \<Rightarrow> (real \<Rightarrow> string) \<Rightarrow> graph
     \<Rightarrow> vehicle_params option \<Rightarrow> error + route list" where
  "calculate_routes shortest_path fmt G vehicle =
     (if nodes G Origin = None \<or> nodes G Destination = None
      then Inl (Exception ''Failed to connect origin or destination to road network'')
      else
        let routes = routes_loop shortest_path fmt G vehicle [] (criteria_for vehicle)
        in if routes = [] then Inl (Exception ''No valid routes found'') else Inr routes)"

section \<open>Tag normalizer (app/services/overpass.py)\<close>

text \<open>
  A raw tag value is a Python \<^verbatim>\<open>str\<close>: a list of Unicode code points. The tables below
  are those of Unicode 14.0, the database of CPython 3.11: the white space of
  \<^verbatim>\<open>str.split\<close>, \<^verbatim>\<open>str.strip\<close> and \<^verbatim>\<open>int\<close>, and the decimal digits of \<^verbatim>\<open>int\<close>, which
  come in runs of ten from a zero digit.
\<close>

type_synonym pystr = "nat list"

definition whitespace_points :: "nat list" where
  "whitespace_points =
     [0x09, 0x0A, 0x0B, 0x0C, 0x0D, 0x1C, 0x1D, 0x1E, 0x1F, 0x20, 0x85, 0xA0, 0x1680,
      0x2000, 0x2001, 0x2002, 0x2003, 0x2004, 0x2005, 0x2006, 0x2007, 0x2008, 0x2009,
      0x200A, 0x2028, 0x2029, 0x202F, 0x205F, 0x3000]"

definition is_space :: "nat \<Rightarrow> bool" where
  "is_space c \<longleftrightarrow> c \<in> set whitespace_points"

fun split_from :: "pystr \<Rightarrow> pystr \<Rightarrow> pystr list" where
  "split_from cur [] = (if cur = [] then [] else [cur])"
| "split_from cur (c # cs) =
     (if is_space c then (if cur = [] then split_from [] cs else cur # split_from [] cs)
      else split_from (cur @ [c]) cs)"

definition py_split :: "pystr \<Rightarrow> pystr list" where
  "py_split s = split_from [] s"

definition py_strip :: "pystr \<Rightarrow> pystr" where
  "py_strip s = rev (dropWhile is_space (rev (dropWhile is_space s)))"

text \<open>
  \<^verbatim>\<open>str.lower\<close> on the letters A to Z. On every other code point it gives code points
  other than m, p and h, for which the code point itself stands here: the test
  \<^verbatim>\<open>"mph" in value.lower()\<close> has the value that it has in Python.
\<close>

definition lower_char :: "nat \<Rightarrow> nat" where
  "lower_char c = (if 0x41 \<le> c \<and> c \<le> 0x5A then c + 0x20 else c)"

definition py_lower :: "pystr \<Rightarrow> pystr" where
  "py_lower s = map lower_char s"

fun starts_with :: "pystr \<Rightarrow> pystr \<Rightarrow> bool" where
  "starts_with [] s = True"
| "starts_with (p # ps) [] = False"
| "starts_with (p # ps) (c # cs) = (p = c \<and> starts_with ps cs)"

fun py_contains :: "pystr \<Rightarrow> pystr \<Rightarrow> bool" where
  "py_contains pat [] = (pat = [])"
| "py_contains pat (c # cs) = (starts_with pat (c # cs) \<or> py_contains pat cs)"

definition mph :: pystr where
  "mph = [0x6D, 0x70, 0x68]"

text \<open>
  \<^verbatim>\<open>int(s)\<close> in base 10: surrounding white space, an optional sign, then decimal digits
  of any script, where a single underscore may stand between two digits; more than 4300
  digits are refused (the default of \<^verbatim>\<open>sys.get_int_max_str_digits()\<close>). \<open>None\<close> is the
  \<^verbatim>\<open>ValueError\<close>.
\<close>

definition decimal_zeros :: "nat list" where
  "decimal_zeros =
     [48, 1632, 1776, 1984, 2406, 2534, 2662, 2790, 2918, 3046, 3174, 3302, 3430, 3558,
      3664, 3792, 3872, 4160, 4240, 6112, 6160, 6470, 6608, 6784, 6800, 6992, 7088, 7232,
      7248, 42528, 43216, 43264, 43472, 43504, 43600, 44016, 65296, 66720, 68912, 69734,
      69872, 69942, 70096, 70384, 70736, 70864, 71248, 71360, 71472, 71904, 72016, 72784,
      73040, 73120, 92768, 92864, 93008, 120782, 120792, 120802, 120812, 120822, 123200,
      123632, 125264, 130032]"

definition digit_value :: "nat \<Rightarrow> nat option" where
  "digit_value c =
     (case find (\<lambda>z. z \<le> c \<and> c < z + 10) decimal_zeros of
        None \<Rightarrow> None
      | Some z \<Rightarrow> Some (c - z))"

fun digits_ok :: "pystr \<Rightarrow> bool" where
  "digits_ok [] = False"
| "digits_ok [c] = (digit_value c \<noteq> None)"
| "digits_ok (c # d # cs) =
     (digit_value c \<noteq> None \<and> (if d = 0x5F then digits_ok cs else digits_ok (d # cs)))"

fun digits_to_int :: "int \<Rightarrow> pystr \<Rightarrow> int" where
  "digits_to_int acc [] = acc"
| "digits_to_int acc (c # cs) =
     (case digit_value c of
        None \<Rightarrow> digits_to_int acc cs
      | Some v \<Rightarrow> digits_to_int (acc * 10 + int v) cs)"

definition digit_count :: "pystr \<Rightarrow> nat" where
  "digit_count cs = length (filter (\<lambda>c. digit_value c \<noteq> None) cs)"

definition int_max_str_digits :: nat where
  "int_max_str_digits = 4300"

definition int_of_digits :: "pystr \<Rightarrow> int option" where
  "int_of_digits cs =
     (if digits_ok cs \<and> digit_count cs \<le> int_max_str_digits then Some (digits_to_int 0 cs)
      else None)"

definition py_int :: "pystr \<Rightarrow> int option" where
  "py_int s =
     (case py_strip s of
        [] \<Rightarrow> None
      | c # cs \<Rightarrow>
          if c = 0x2D then map_option uminus (int_of_digits cs)
          else if c = 0x2B then int_of_digits cs
          else int_of_digits (c # cs))"

text \<open>
  The product \<^verbatim>\<open>speed * 1.60934\<close> in double precision. A finite double is
  \<open>Finite m e\<close>, the number \<open>m * 2 ^ e\<close> with at most 53 bits in \<open>m\<close>. The integer is
  converted to the nearest double, ties to even, and an integer that rounds to 2 ^ 1024
  or more raises \<^verbatim>\<open>OverflowError\<close>; the product of two doubles is rounded in the same
  way and is infinite from 2 ^ 1024 on; \<^verbatim>\<open>int\<close> of a double truncates towards zero and
  raises \<^verbatim>\<open>OverflowError\<close> on an infinite one. The literal \<^verbatim>\<open>1.60934\<close> denotes the double
  \<open>0x19BFDB4CC25072 / 2 ^ 52\<close>. A product with an integer factor is 0 or of magnitude 1
  at least, so the subnormal range is not modelled.
\<close>

datatype pyfloat = Finite int int | Infinite

function bit_length :: "int \<Rightarrow> nat" where
  "bit_length n = (if n \<le> 0 then 0 else Suc (bit_length (n div 2)))"
  by pat_completeness auto
termination
  by (relation "measure nat") auto

declare bit_length.simps [simp del]

definition shift_round_even :: "int \<Rightarrow> nat \<Rightarrow> int" where
  "shift_round_even n d =
     (if d = 0 then n
      else
        let q = n div 2 ^ d; r = n mod 2 ^ d; h = 2 ^ (d - 1)
        in if h < r \<or> (r = h \<and> odd q) then q + 1 else q)"

definition round53 :: "int \<Rightarrow> int \<times> nat" where
  "round53 n = (let d = bit_length n - 53 in (shift_round_even n d, d))"

definition float_of_int :: "int \<Rightarrow> error + pyfloat" where
  "float_of_int n =
     (case round53 \<bar>n\<bar> of
        (m, d) \<Rightarrow>
          if 2 ^ 1024 \<le> m * 2 ^ d then Inl OverflowError
          else Inr (Finite (sgn n * m) (int d)))"

definition float_1_60934 :: pyfloat where
  "float_1_60934 = Finite 0x19BFDB4CC25072 (- 52)"

fun float_mul :: "pyfloat \<Rightarrow> pyfloat \<Rightarrow> pyfloat" where
  "float_mul (Finite m1 e1) (Finite m2 e2) =
     (case round53 \<bar>m1 * m2\<bar> of
        (m, d) \<Rightarrow>
          let e = e1 + e2 + int d
          in if 0 \<le> e \<and> 2 ^ 1024 \<le> m * 2 ^ nat e then Infinite
             else Finite (sgn (m1 * m2) * m) e)"
| "float_mul x y = Infinite"

fun int_of_float :: "pyfloat \<Rightarrow> error + int" where
  "int_of_float Infinite = Inl OverflowError"
| "int_of_float (Finite m e) =
     Inr (if 0 \<le> e then m * 2 ^ nat e else sgn m * (\<bar>m\<bar> div 2 ^ nat (- e)))"

text \<open>The body of the \<^verbatim>\<open>try\<close> block of \<^verbatim>\<open>_parse_maxspeed\<close>, and the function around it.\<close>

definition parse_maxspeed_body :: "pystr \<Rightarrow> error + int" where
  "parse_maxspeed_body v =
     (case py_split v of
        [] \<Rightarrow> Inl IndexError
      | speed_str # _ \<Rightarrow>
          (case py_int speed_str of
             None \<Rightarrow> Inl ValueError
           | Some speed \<Rightarrow>
               if py_contains mph (py_lower v)
               then (case float_of_int speed of
                       Inl e \<Rightarrow> Inl e
                     | Inr x \<Rightarrow> int_of_float (float_mul x float_1_60934))
               else Inr speed))"

definition parse_maxspeed :: "pystr option \<Rightarrow> error + int option" where
  "parse_maxspeed val =
     (case val of
        None \<Rightarrow> Inr None
      | Some v \<Rightarrow>
          if v = [] then Inr None
          else (case parse_maxspeed_body v of
                  Inr speed \<Rightarrow> Inr (Some speed)
                | Inl ValueError \<Rightarrow> Inr None
                | Inl IndexError \<Rightarrow> Inr None
                | Inl e \<Rightarrow> Inl e))"

text \<open>
  \<^verbatim>\<open>_parse_metric\<close>; \<^verbatim>\<open>float\<close> of a string is the parameter \<open>py_float\<close>, with \<open>None\<close>
  for its \<^verbatim>\<open>ValueError\<close>, which the function catches.
\<close>

definition parse_metric :: "(pystr \<Rightarrow> real option) \<Rightarrow> pystr option \<Rightarrow> real option" where
  "parse_metric py_float val =
     (case val of
        None \<Rightarrow> None
      | Some v \<Rightarrow>
          if v = [] then None
          else py_float (py_strip (filter (\<lambda>c. c \<noteq> 0x74) (filter (\<lambda>c. c \<noteq> 0x6D) v))))"

text \<open>
  \<^verbatim>\<open>extract_tags\<close> on the tag map of a way (the keys that the services read), and the
  attribute dictionaries that \<^verbatim>\<open>build_graph\<close> stores: \<^verbatim>\<open>{"distance": distance, **tags}\<close>
  on the edge of a way and \<^verbatim>\<open>distance=dist, connector=True\<close> on a connector. The tag
  map holds strings whose characters are the code points below 256; \<open>code_points\<close> hands
  them to the normalizers.
\<close>

definition code_points :: "string option \<Rightarrow> pystr option" where
  "code_points s = map_option (map of_char) s"

definition extract_tags ::
  "(pystr \<Rightarrow> real option) \<Rightarrow> (string \<rightharpoonup> string) \<Rightarrow> error + edge_data" where
  "extract_tags py_float tags =
     (case parse_maxspeed (code_points (tags ''maxspeed'')) of
        Inl e \<Rightarrow> Inl e
      | Inr speed \<Rightarrow>
          Inr \<lparr>distance = None, connector = False,
               highway = Some (case tags ''highway'' of None \<Rightarrow> ''unclassified'' | Some h \<Rightarrow> h),
               surface = tags ''surface'', smoothness = tags ''smoothness'', lit = tags ''lit'',
               traffic_signals = tags ''traffic_signals'', maxspeed = Some speed,
               maxheight = parse_metric py_float (code_points (tags ''maxheight'')),
               maxweight = parse_metric py_float (code_points (tags ''maxweight'')),
               hgv = tags ''hgv'', access = tags ''access''\<rparr>)"

definition way_edge ::
  "(pystr \<Rightarrow> real option) \<Rightarrow> (string \<rightharpoonup> string) \<Rightarrow> real \<Rightarrow> error + edge_data" where
  "way_edge py_float tags d =
     (case extract_tags py_float tags of
        Inl e \<Rightarrow> Inl e
      | Inr t \<Rightarrow> Inr (t\<lparr>distance := Some d\<rparr>))"

definition connector_edge :: "real \<Rightarrow> edge_data" where
  "connector_edge d =
     \<lparr>distance = Some d, connector = True, highway = None, surface = None,
      smoothness = None, lit = None, traffic_signals = None, maxspeed = None,
      maxheight = None, maxweight = None, hgv = None, access = None\<rparr>"

section \<open>Auxiliary definitions for the statements\<close>

text \<open>
  The alerts that the loop over a path collects (\<^verbatim>\<open>all_alerts\<close> before deduplication),
  and the summary in the words of the specification: the clear message for no alerts,
  otherwise the comma-joined counts of the red and of the yellow alerts of the list that
  is counted.
\<close>

definition path_alerts ::
  "(real \<Rightarrow> string) \<Rightarrow> graph \<Rightarrow> vehicle_params option \<Rightarrow> node list \<Rightarrow> alert list" where
  "path_alerts fmt G vehicle path =
     (case walk_path fmt G vehicle path (0, [], []) of
        Inl e \<Rightarrow> []
      | Inr (total_km, geom, all_alerts) \<Rightarrow> all_alerts)"

definition spec_summary :: "alert list \<Rightarrow> string" where
  "spec_summary counted =
     (if counted = [] then ''Route is clear with no warnings''
      else py_join '', ''
        ((if length (filter (\<lambda>a. level a = Red) counted) > 0
          then [str_of_nat (length (filter (\<lambda>a. level a = Red) counted)) @ '' critical alert(s)'']
          else [])
         @ (if length (filter (\<lambda>a. level a = Yellow) counted) > 0
            then [str_of_nat (length (filter (\<lambda>a. level a = Yellow) counted)) @ '' caution(s)'']
            else [])))"

text \<open>
  The finite weights of a list of parallel edges, in the order of the edges; a blocked
  edge gives none.
\<close>

fun finite_weights :: "string \<Rightarrow> vehicle_params option \<Rightarrow> edge_data list \<Rightarrow> real list" where
  "finite_weights criterion vehicle [] = []"
| "finite_weights criterion vehicle (d # ds) =
     (case calculate_edge_weight d criterion vehicle of
        Blocked \<Rightarrow> finite_weights criterion vehicle ds
      | Cost x \<Rightarrow> x # finite_weights criterion vehicle ds)"

text \<open>
  What a criterion contributes to the result of \<^verbatim>\<open>calculate_routes\<close>: the route of
  \<^verbatim>\<open>_calculate_single_route\<close>, and nothing when that returns \<^verbatim>\<open>None\<close> or raises.
\<close>

definition yielded_route ::
  "(weighted_graph \<Rightarrow> error + node list) \<Rightarrow> (real \<Rightarrow> string) \<Rightarrow> graph
     \<Rightarrow> vehicle_params option \<Rightarrow> string \<Rightarrow> route option" where
  "yielded_route shortest_path fmt G vehicle criterion =
     (case calculate_single_route shortest_path fmt G criterion vehicle of
        Inr (Some r) \<Rightarrow> Some r
      | _ \<Rightarrow> None)"

section \<open>Example inputs\<close>

text \<open>Edges, vehicles, tag maps and graphs at which the statements are evaluated.\<close>

definition lit_street_edge :: edge_data where
  "lit_street_edge =
     \<lparr>distance = Some 10, connector = False, highway = Some ''living_street'',
      surface = None, smoothness = None, lit = Some ''yes'', traffic_signals = None,
      maxspeed = Some (Some 30), maxheight = None, maxweight = None, hgv = None,
      access = None\<rparr>"

definition low_bridge_edge :: edge_data where
  "low_bridge_edge =
     \<lparr>distance = Some 2, connector = False, highway = Some ''motorway'', surface = None,
      smoothness = None, lit = None, traffic_signals = None, maxspeed = Some None,
      maxheight = Some 3, maxweight = None, hgv = None, access = None\<rparr>"

definition tall_car :: vehicle_params where
  "tall_car = \<lparr>vehicle_type = Car, height = Some 4, weight = None\<rparr>"

definition tall_truck :: vehicle_params where
  "tall_truck = \<lparr>vehicle_type = Truck, height = Some 4, weight = None\<rparr>"

definition fitting_truck :: vehicle_params where
  "fitting_truck = \<lparr>vehicle_type = Truck, height = Some 3, weight = None\<rparr>"

definition plain_tags :: "string \<rightharpoonup> string" where
  "plain_tags = [''highway'' \<mapsto> ''residential'']"

definition odd_speed_tags :: "string \<rightharpoonup> string" where
  "odd_speed_tags = [''highway'' \<mapsto> ''residential'', ''maxspeed'' \<mapsto> ''walk'']"

definition mud_tags :: "string \<rightharpoonup> string" where
  "mud_tags = [''highway'' \<mapsto> ''track'', ''surface'' \<mapsto> ''mud'']"

definition rough_edge :: "string \<Rightarrow> string \<Rightarrow> string option \<Rightarrow> edge_data" where
  "rough_edge s sm l =
     \<lparr>distance = Some 1, connector = False, highway = Some ''track'', surface = Some s,
      smoothness = Some sm, lit = l, traffic_signals = None, maxspeed = Some None,
      maxheight = None, maxweight = None, hgv = None, access = None\<rparr>"

definition rough_road :: graph where
  "rough_road =
     \<lparr>nodes = [Origin \<mapsto> \<lparr>lat = 0, lon = 0\<rparr>, OsmNode 1 \<mapsto> \<lparr>lat = 0, lon = 0\<rparr>,
               OsmNode 2 \<mapsto> \<lparr>lat = 0, lon = 0\<rparr>, OsmNode 3 \<mapsto> \<lparr>lat = 0, lon = 0\<rparr>,
               OsmNode 4 \<mapsto> \<lparr>lat = 0, lon = 0\<rparr>, OsmNode 5 \<mapsto> \<lparr>lat = 0, lon = 0\<rparr>,
               OsmNode 6 \<mapsto> \<lparr>lat = 0, lon = 0\<rparr>, Destination \<mapsto> \<lparr>lat = 0, lon = 0\<rparr>],
      edges = [(Origin, OsmNode 1, connector_edge 0),
               (OsmNode 1, OsmNode 2, rough_edge ''unpaved'' ''bad'' (Some ''no'')),
               (OsmNode 2, OsmNode 3, rough_edge ''dirt'' ''very_bad'' None),
               (OsmNode 3, OsmNode 4, rough_edge ''gravel'' ''horrible'' None),
               (OsmNode 4, OsmNode 5, rough_edge ''mud'' ''very_horrible'' None),
               (OsmNode 5, OsmNode 6, rough_edge ''sand'' ''impassable'' None),
               (OsmNode 6, Destination, connector_edge 0)]\<rparr>"

definition rough_path :: "node list" where
  "rough_path = [Origin, OsmNode 1, OsmNode 2, OsmNode 3, OsmNode 4, OsmNode 5, OsmNode 6,
                 Destination]"

definition at_zero :: "level \<Rightarrow> string \<Rightarrow> alert" where
  "at_zero lv msg = \<lparr>level = lv, message = msg, location = Some \<lparr>lat = 0, lon = 0\<rparr>\<rparr>"

definition rough_alerts :: "alert list" where
  "rough_alerts =
     [at_zero Yellow ''Unpaved road: unpaved'', at_zero Yellow ''Road quality: bad'',
      at_zero Yellow ''No street lighting'',
      at_zero Yellow ''Unpaved road: dirt'', at_zero Yellow ''Road quality: very_bad'',
      at_zero Yellow ''Unpaved road: gravel'', at_zero Red ''Very poor road quality: horrible'',
      at_zero Yellow ''Unpaved road: mud'', at_zero Red ''Very poor road quality: very_horrible'',
      at_zero Red ''Poor surface condition: sand'',
      at_zero Red ''Very poor road quality: impassable'']"

definition rough_unique :: "alert list" where
  "rough_unique =
     [at_zero Red ''Very poor road quality: horrible'',
      at_zero Red ''Very poor road quality: very_horrible'',
      at_zero Red ''Poor surface condition: sand'',
      at_zero Red ''Very poor road quality: impassable'',
      at_zero Yellow ''Unpaved road: unpaved'', at_zero Yellow ''Road quality: bad'',
      at_zero Yellow ''No street lighting'',
      at_zero Yellow ''Unpaved road: dirt'', at_zero Yellow ''Road quality: very_bad'',
      at_zero Yellow ''Unpaved road: gravel'', at_zero Yellow ''Unpaved road: mud'']"


text \<open>
  The graph \<open>rough_road\<close> has one path from the origin to the destination, and no
  criterion blocks an edge of it for a vehicle that is not given: a search returns it.
\<close>

definition rough_search :: "weighted_graph \<Rightarrow> error + node list" where
  "rough_search wg = Inr rough_path"

definition motorway_edge :: edge_data where
  "motorway_edge =
     \<lparr>distance = Some 10, connector = False, highway = Some ''motorway'', surface = None,
      smoothness = None, lit = None, traffic_signals = None, maxspeed = Some None,
      maxheight = None, maxweight = None, hgv = None, access = None\<rparr>"

definition mud_track_edge :: edge_data where
  "mud_track_edge =
     \<lparr>distance = Some 10, connector = False, highway = Some ''track'', surface = Some ''mud'',
      smoothness = None, lit = None, traffic_signals = None, maxspeed = Some None,
      maxheight = None, maxweight = None, hgv = None, access = None\<rparr>"

definition fast_first :: graph where
  "fast_first =
     \<lparr>nodes = [OsmNode 1 \<mapsto> \<lparr>lat = 0, lon = 0\<rparr>, OsmNode 2 \<mapsto> \<lparr>lat = 1, lon = 1\<rparr>],
      edges = [(OsmNode 1, OsmNode 2, motorway_edge),
               (OsmNode 1, OsmNode 2, mud_track_edge)]\<rparr>"

definition rough_first :: graph where
  "rough_first =
     \<lparr>nodes = [OsmNode 1 \<mapsto> \<lparr>lat = 0, lon = 0\<rparr>, OsmNode 2 \<mapsto> \<lparr>lat = 1, lon = 1\<rparr>],
      edges = [(OsmNode 1, OsmNode 2, mud_track_edge),
               (OsmNode 1, OsmNode 2, motorway_edge)]\<rparr>"

definition bridge_graph :: graph where
  "bridge_graph =
     \<lparr>nodes = [Origin \<mapsto> \<lparr>lat = 0, lon = 0\<rparr>, OsmNode 1 \<mapsto> \<lparr>lat = 0, lon = 0\<rparr>,
               OsmNode 2 \<mapsto> \<lparr>lat = 1, lon = 1\<rparr>, Destination \<mapsto> \<lparr>lat = 1, lon = 1\<rparr>],
      edges = [(Origin, OsmNode 1, connector_edge 0),
               (OsmNode 1, OsmNode 2, low_bridge_edge),
               (OsmNode 2, Destination, connector_edge 0)]\<rparr>"

text \<open>
  The graph \<open>bridge_graph\<close> has one path from the origin to the destination, over the
  low bridge: a search returns it when the view holds the edge of the bridge and finds
  no path otherwise.
\<close>

definition bridge_search :: "weighted_graph \<Rightarrow> error + node list" where
  "bridge_search wg =
     (if wweight wg (OsmNode 1, OsmNode 2) = None then Inl NetworkXNoPath
      else Inr [Origin, OsmNode 1, OsmNode 2, Destination])"

definition no_path_search :: "weighted_graph \<Rightarrow> error + node list" where
  "no_path_search wg = Inl NetworkXNoPath"

text \<open>
  A maxspeed tag of 314 characters: the digit 1, 309 zeros, a space and \<^verbatim>\<open>mph\<close>; its
  number alone, the value of the number, and a way that carries the tag.
\<close>

definition huge_number :: pystr where
  "huge_number = 0x31 # replicate 309 0x30"

definition huge_value :: int where
  "huge_value = 10 ^ 309"

definition huge_mph_tag :: pystr where
  "huge_mph_tag = huge_number @ 0x20 # mph"

definition huge_speed_tags :: "string \<rightharpoonup> string" where
  "huge_speed_tags =
     [''highway'' \<mapsto> ''residential'',
      ''maxspeed'' \<mapsto> CHR ''1'' # replicate 309 (CHR ''0'') @ '' mph'']"

section \<open>Properties of the cost function\<close>

subsection \<open>Bounds of the tables\<close>

lemma HIGHWAY_WEIGHTS_ge1: "map_of HIGHWAY_WEIGHTS k = Some v \<Longrightarrow> 1 \<le> v"
  by (auto simp: HIGHWAY_WEIGHTS_def split: if_splits)

lemma SURFACE_WEIGHTS_ge1: "map_of SURFACE_WEIGHTS k = Some v \<Longrightarrow> 1 \<le> v"
  by (auto simp: SURFACE_WEIGHTS_def split: if_splits)

lemma SMOOTHNESS_WEIGHTS_ge1: "map_of SMOOTHNESS_WEIGHTS k = Some v \<Longrightarrow> 1 \<le> v"
  by (auto simp: SMOOTHNESS_WEIGHTS_def split: if_splits)

lemma dict_get_cases:
  "dict_get d k dflt = dflt \<or> (\<exists>v. map_of d k = Some v \<and> dict_get d k dflt = v)"
  by (auto simp: dict_get_def split: option.splits)

lemma highway_default: "dict_item HIGHWAY_WEIGHTS ''default'' = 2.5"
  by (simp add: dict_item_def HIGHWAY_WEIGHTS_def)

lemma surface_default: "dict_item SURFACE_WEIGHTS ''default'' = 2.0"
  by (simp add: dict_item_def SURFACE_WEIGHTS_def)

lemma smoothness_default: "dict_item SMOOTHNESS_WEIGHTS ''default'' = 1.5"
  by (simp add: dict_item_def SMOOTHNESS_WEIGHTS_def)

lemma get_highway_weight_nonneg: "0 \<le> get_highway_weight e"
  using dict_get_cases [of HIGHWAY_WEIGHTS
      "case highway e of None \<Rightarrow> DEFAULTS_highway | Some h \<Rightarrow> h"
      "dict_item HIGHWAY_WEIGHTS ''default''"]
  by (auto simp: get_highway_weight_def highway_default dest: HIGHWAY_WEIGHTS_ge1)

lemma get_surface_weight_nonneg: "0 \<le> get_surface_weight e"
  using dict_get_cases [of SURFACE_WEIGHTS "the (surface e)"
      "dict_item SURFACE_WEIGHTS ''default''"]
  by (auto simp: get_surface_weight_def surface_default dest: SURFACE_WEIGHTS_ge1)

lemma get_smoothness_weight_nonneg: "0 \<le> get_smoothness_weight e"
  using dict_get_cases [of SMOOTHNESS_WEIGHTS "the (smoothness e)"
      "dict_item SMOOTHNESS_WEIGHTS ''default''"]
  by (auto simp: get_smoothness_weight_def smoothness_default dest: SMOOTHNESS_WEIGHTS_ge1)

lemma criterion_row_bounds:
  "m_distance (criterion_row c) = 1 \<and> 0 \<le> m_highway_type (criterion_row c)
   \<and> 0 \<le> m_surface (criterion_row c) \<and> 0 \<le> m_smoothness (criterion_row c)
   \<and> 0 \<le> m_safety (criterion_row c) \<and> m_safety (criterion_row c) \<le> 3"
  by (simp add: criterion_row_def dict_get_def dict_item_def CRITERIA_MULTIPLIERS_def)

lemma lit_factor_bounds: "0.8 \<le> lit_factor e \<and> lit_factor e \<le> 1.3"
  by (simp add: lit_factor_def dict_get_def dict_item_def SAFETY_FACTORS_lit_def)

lemma signals_factor_bounds: "0.9 \<le> signals_factor e \<and> signals_factor e \<le> 1"
  by (simp add: signals_factor_def dict_item_def SAFETY_FACTORS_traffic_signals_def)

lemma speed_factor_bounds: "1 \<le> speed_factor e \<and> speed_factor e \<le> 3"
  by (simp add: speed_factor_def get_speed_penalty_def split: option.splits)

lemma get_safety_weight_lower: "- 0.28 \<le> get_safety_weight e"
proof -
  have "0.8 * 0.9 \<le> lit_factor e * signals_factor e"
    using lit_factor_bounds [of e] signals_factor_bounds [of e]
    by (intro mult_mono) auto
  moreover have "0 \<le> lit_factor e * signals_factor e"
    using lit_factor_bounds [of e] signals_factor_bounds [of e] by simp
  ultimately have "0.72 * 1 \<le> lit_factor e * signals_factor e * speed_factor e"
    using speed_factor_bounds [of e] by (intro mult_mono) auto
  then show ?thesis by (simp add: get_safety_weight_def)
qed

subsection \<open>The four factors and the product\<close>

lemma highway_term_ge1: "1 \<le> highway_term e c"
  using get_highway_weight_nonneg [of e] criterion_row_bounds [of c]
  by (simp add: highway_term_def)

lemma surface_term_ge1: "1 \<le> surface_term e c"
  using get_surface_weight_nonneg [of e] criterion_row_bounds [of c]
  by (simp add: surface_term_def)

lemma smoothness_term_ge1: "1 \<le> smoothness_term e c"
  using get_smoothness_weight_nonneg [of e] criterion_row_bounds [of c]
  by (simp add: smoothness_term_def)

lemma safety_term_lower: "0.16 \<le> safety_term e c"
proof -
  let ?s = "get_safety_weight e" and ?m = "m_safety (criterion_row c)"
  have m: "0 \<le> ?m" "?m \<le> 3" using criterion_row_bounds [of c] by simp_all
  have "- 0.28 * ?m \<le> ?s * ?m"
    using get_safety_weight_lower [of e] m(1) by (intro mult_right_mono) auto
  moreover have "- 0.84 \<le> - 0.28 * ?m" using m(2) by simp
  ultimately show ?thesis by (simp add: safety_term_def)
qed

lemma total_weight_lower:
  assumes "0 \<le> edge_distance e"
  shows "edge_distance e * m_distance (criterion_row c) * safety_term e c \<le> total_weight e c"
proof -
  let ?d = "edge_distance e * m_distance (criterion_row c)"
  have d: "0 \<le> ?d" using assms criterion_row_bounds [of c] by simp
  have "1 * 1 \<le> highway_term e c * surface_term e c"
    using highway_term_ge1 [of e c] surface_term_ge1 [of e c]
    by (intro mult_mono) auto
  then have "1 * 1 \<le> highway_term e c * surface_term e c * smoothness_term e c"
    using smoothness_term_ge1 [of e c]
    by (intro mult_mono) auto
  then have "1 \<le> highway_term e c * surface_term e c * smoothness_term e c"
    by simp
  then have "?d * 1 \<le> ?d * (highway_term e c * surface_term e c * smoothness_term e c)"
    using d by (intro mult_left_mono) auto
  moreover have "0 \<le> safety_term e c" using safety_term_lower [of e c] by simp
  ultimately have "?d * 1 * safety_term e c
      \<le> ?d * (highway_term e c * surface_term e c * smoothness_term e c) * safety_term e c"
    by (intro mult_right_mono) auto
  then show ?thesis by (simp add: total_weight_def mult.assoc)
qed

lemma total_weight_nonneg:
  assumes d: "0 \<le> edge_distance e"
  shows "0 \<le> total_weight e c"
proof -
  have "0 \<le> edge_distance e * m_distance (criterion_row c) * safety_term e c"
    using d safety_term_lower [of e c] criterion_row_bounds [of c] by simp
  with total_weight_lower [OF d, of c] show ?thesis by simp
qed

lemma truck_penalty_ge1: "get_truck_restriction_penalty e v = Cost p \<Longrightarrow> 1 \<le> p"
  by (auto simp: get_truck_restriction_penalty_def split: if_splits)

lemma calculate_edge_weight_ge_total:
  assumes "\<not> connector e" "0 \<le> edge_distance e" "calculate_edge_weight e c v = Cost w"
  shows "total_weight e c \<le> w"
proof (cases "c = ''truck_compatible'' \<and> v \<noteq> None")
  case True
  with assms obtain p where p: "get_truck_restriction_penalty e (the v) = Cost p"
      and w: "w = total_weight e c * p"
    by (auto simp: calculate_edge_weight_def split: cost.splits)
  have "total_weight e c * 1 \<le> total_weight e c * p"
    using truck_penalty_ge1 [OF p] total_weight_nonneg [OF assms(2), of c]
    by (intro mult_left_mono) auto
  with w show ?thesis by simp
next
  case False
  with assms show ?thesis by (auto simp: calculate_edge_weight_def)
qed

lemma safety_term_lit_street: "safety_term lit_street_edge ''safest'' = 0.4"
  by (simp add: safety_term_def get_safety_weight_def lit_factor_def signals_factor_def
      speed_factor_def maxspeed_or_default_def get_speed_penalty_def truthy_str_def
      lit_street_edge_def criterion_row_def dict_get_def dict_item_def
      CRITERIA_MULTIPLIERS_def SAFETY_FACTORS_lit_def)

lemma total_weight_lit_street: "total_weight lit_street_edge ''safest'' = 7"
  by (simp add: total_weight_def safety_term_lit_street)
    (simp add: highway_term_def surface_term_def smoothness_term_def get_highway_weight_def
      get_surface_weight_def get_smoothness_weight_def truthy_str_def edge_distance_def
      lit_street_edge_def criterion_row_def dict_get_def dict_item_def
      CRITERIA_MULTIPLIERS_def HIGHWAY_WEIGHTS_def)

lemma total_weight_low_bridge: "total_weight low_bridge_edge ''fastest'' = 2"
  by (simp add: total_weight_def highway_term_def surface_term_def smoothness_term_def
      safety_term_def get_highway_weight_def get_surface_weight_def get_smoothness_weight_def
      truthy_str_def edge_distance_def low_bridge_edge_def criterion_row_def dict_get_def
      dict_item_def CRITERIA_MULTIPLIERS_def HIGHWAY_WEIGHTS_def DEFAULTS_highway_def)

subsection \<open>Claim C1\<close>

text \<open>
  C1 states that for every non-connector edge and every criterion the cost is at least
  \<^verbatim>\<open>length_km\<close> times the distance multiplier, each of the four factors being at least 1.
  The safety factor is not: on a lit living street of 10 km with a maxspeed of 30, the
  lit bonus 0.8 gives the safety factor 0.4 under \<^verbatim>\<open>safest\<close>, and the cost is 7.
\<close>

theorem lit_street_cost_below_length:
  "\<not> connector lit_street_edge
   \<and> calculate_edge_weight lit_street_edge ''safest'' None = Cost 7
   \<and> edge_distance lit_street_edge * m_distance (criterion_row ''safest'') = 10
   \<and> safety_term lit_street_edge ''safest'' < 1"
  by (simp add: calculate_edge_weight_def total_weight_lit_street safety_term_lit_street)
    (simp add: lit_street_edge_def edge_distance_def criterion_row_def dict_get_def
      CRITERIA_MULTIPLIERS_def)

text \<open>
  C1 as amended: for every non-connector edge of non-negative length and every criterion
  string, the highway, surface and smoothness factors are at least 1 and the safety factor
  is at least 0.16 (it may be below 1, since \<^verbatim>\<open>lit = yes\<close> and traffic signals are
  bonuses); the cost is the blocked sentinel or at least \<^verbatim>\<open>length_km\<close> times the distance
  multiplier times the safety factor, hence at least 0.16 times \<^verbatim>\<open>length_km\<close> times the
  distance multiplier, and it is strictly positive when \<^verbatim>\<open>length_km\<close> is.
\<close>

theorem edge_weight_lower_bound:
  assumes "\<not> connector e" and "0 \<le> edge_distance e"
  shows "1 \<le> highway_term e c \<and> 1 \<le> surface_term e c \<and> 1 \<le> smoothness_term e c
    \<and> 0.16 \<le> safety_term e c
    \<and> (calculate_edge_weight e c v = Blocked
        \<or> (\<exists>w. calculate_edge_weight e c v = Cost w
              \<and> edge_distance e * m_distance (criterion_row c) * safety_term e c \<le> w
              \<and> 0.16 * (edge_distance e * m_distance (criterion_row c)) \<le> w
              \<and> (0 < edge_distance e \<longrightarrow> 0 < w)))"
proof -
  let ?d = "edge_distance e * m_distance (criterion_row c)"
  have d: "0 \<le> ?d" "?d = edge_distance e"
    using assms(2) criterion_row_bounds [of c] by simp_all
  have low: "0.16 * ?d \<le> ?d * safety_term e c"
    using mult_left_mono [OF safety_term_lower [of e c] d(1)] by (simp add: mult.commute)
  have last: "calculate_edge_weight e c v = Blocked
        \<or> (\<exists>w. calculate_edge_weight e c v = Cost w
              \<and> ?d * safety_term e c \<le> w \<and> 0.16 * ?d \<le> w
              \<and> (0 < edge_distance e \<longrightarrow> 0 < w))"
  proof (cases "calculate_edge_weight e c v")
    case Blocked
    then show ?thesis by simp
  next
    case (Cost w)
    have 1: "?d * safety_term e c \<le> w"
      using total_weight_lower [OF assms(2), of c]
        calculate_edge_weight_ge_total [OF assms Cost] by simp
    with low have 2: "0.16 * ?d \<le> w" by simp
    have 3: "0 < edge_distance e \<longrightarrow> 0 < w" using 2 d(2) by auto
    from Cost 1 2 3 show ?thesis by simp
  qed
  show ?thesis
    using highway_term_ge1 [of e c] surface_term_ge1 [of e c] smoothness_term_ge1 [of e c]
      safety_term_lower [of e c] last by blast
qed

text \<open>The bound of C1 at the lit street under \<^verbatim>\<open>safest\<close>: the cost 7 lies above 1.6.\<close>

theorem edge_weight_lower_bound_witness:
  "\<not> connector lit_street_edge \<and> 0 \<le> edge_distance lit_street_edge
   \<and> 0.16 \<le> safety_term lit_street_edge ''safest''
   \<and> (\<exists>w. calculate_edge_weight lit_street_edge ''safest'' None = Cost w
          \<and> 0.16 * (edge_distance lit_street_edge * m_distance (criterion_row ''safest'')) \<le> w
          \<and> 0 < w)"
proof -
  have h1: "\<not> connector lit_street_edge" by (simp add: lit_street_edge_def)
  have h2: "0 \<le> edge_distance lit_street_edge"
    by (simp add: lit_street_edge_def edge_distance_def)
  have h3: "0 < edge_distance lit_street_edge"
    by (simp add: lit_street_edge_def edge_distance_def)
  have nb: "calculate_edge_weight lit_street_edge ''safest'' None \<noteq> Blocked"
    by (simp add: calculate_edge_weight_def)
  show ?thesis
    using h1 h2 h3 nb edge_weight_lower_bound [OF h1 h2, of "''safest''" None] by blast
qed

subsection \<open>Claim C6\<close>

lemma truck_penalty_blocked_iff:
  "get_truck_restriction_penalty e v = Blocked \<longleftrightarrow>
     (\<exists>mh h. maxheight e = Some mh \<and> height v = Some h \<and> mh \<noteq> 0 \<and> h \<noteq> 0 \<and> mh < h)
     \<or> (\<exists>mw w. maxweight e = Some mw \<and> weight v = Some w \<and> mw \<noteq> 0 \<and> w \<noteq> 0 \<and> mw < w)
     \<or> (hgv e = Some ''no'' \<and> vehicle_type v = Truck)
     \<or> ((access e = Some ''private'' \<or> access e = Some ''no'') \<and> vehicle_type v = Truck)"
  by (cases "maxheight e"; cases "height v"; cases "maxweight e"; cases "weight v")
     (auto simp: get_truck_restriction_penalty_def truthy_float_def)

text \<open>
  C6 states that the cost is the blocked sentinel exactly when the criterion is
  \<^verbatim>\<open>truck_compatible\<close>, the vehicle is a truck and a hard-block condition holds, so that
  gating is never applied for another vehicle. The height and weight conditions do not
  look at the vehicle type: under \<^verbatim>\<open>truck_compatible\<close> a car of height 4 is blocked at a
  limit of 3.
\<close>

theorem tall_car_blocked:
  "calculate_edge_weight low_bridge_edge ''truck_compatible'' (Some tall_car) = Blocked
   \<and> vehicle_type tall_car \<noteq> Truck"
  by (simp add: calculate_edge_weight_def get_truck_restriction_penalty_def truthy_float_def
      low_bridge_edge_def tall_car_def)

text \<open>
  C6 as amended: the cost is the blocked sentinel exactly when the edge is not a
  connector, the criterion is \<^verbatim>\<open>truck_compatible\<close>, a vehicle is given, and one of these
  holds: maxheight and the vehicle height are both present and non-zero and the height is
  strictly greater; the same for maxweight and the weight; the vehicle is a truck and
  \<^verbatim>\<open>hgv\<close> is \<^verbatim>\<open>no\<close>; the vehicle is a truck and \<^verbatim>\<open>access\<close> is \<^verbatim>\<open>private\<close> or \<^verbatim>\<open>no\<close>.
  No other criterion blocks, and a vehicle whose height equals maxheight is not blocked
  by the height rule.
\<close>

theorem edge_blocked_iff:
  "(calculate_edge_weight e c veh = Blocked \<longleftrightarrow>
      \<not> connector e \<and> c = ''truck_compatible''
      \<and> (\<exists>v. veh = Some v
            \<and> ((\<exists>mh h. maxheight e = Some mh \<and> height v = Some h \<and> mh \<noteq> 0 \<and> h \<noteq> 0 \<and> mh < h)
               \<or> (\<exists>mw w. maxweight e = Some mw \<and> weight v = Some w \<and> mw \<noteq> 0 \<and> w \<noteq> 0 \<and> mw < w)
               \<or> (hgv e = Some ''no'' \<and> vehicle_type v = Truck)
               \<or> ((access e = Some ''private'' \<or> access e = Some ''no'')
                   \<and> vehicle_type v = Truck))))
   \<and> (c \<noteq> ''truck_compatible'' \<longrightarrow> calculate_edge_weight e c veh \<noteq> Blocked)
   \<and> (veh = Some v \<and> height v = maxheight e \<and> maxweight e = None \<and> hgv e \<noteq> Some ''no''
        \<and> access e \<noteq> Some ''private'' \<and> access e \<noteq> Some ''no''
      \<longrightarrow> calculate_edge_weight e c veh \<noteq> Blocked)"
proof -
  have iff: "calculate_edge_weight e c veh = Blocked \<longleftrightarrow>
      \<not> connector e \<and> c = ''truck_compatible''
      \<and> (\<exists>v. veh = Some v \<and> get_truck_restriction_penalty e v = Blocked)"
    by (cases veh) (auto simp: calculate_edge_weight_def split: cost.splits)
  have eq: "veh = Some v \<and> height v = maxheight e \<and> maxweight e = None \<and> hgv e \<noteq> Some ''no''
        \<and> access e \<noteq> Some ''private'' \<and> access e \<noteq> Some ''no''
      \<longrightarrow> calculate_edge_weight e c veh \<noteq> Blocked"
    unfolding iff by (auto simp: truck_penalty_blocked_iff)
  show ?thesis
    using iff eq unfolding truck_penalty_blocked_iff by blast
qed

text \<open>
  C6 at a limit of 3: a truck of height 4 is blocked under \<^verbatim>\<open>truck_compatible\<close> and not
  under \<^verbatim>\<open>safest\<close>, and a truck of height 3 is not blocked.
\<close>

theorem edge_blocked_iff_witness:
  "calculate_edge_weight low_bridge_edge ''truck_compatible'' (Some tall_truck) = Blocked
   \<and> calculate_edge_weight low_bridge_edge ''safest'' (Some tall_truck) \<noteq> Blocked
   \<and> calculate_edge_weight low_bridge_edge ''truck_compatible'' (Some fitting_truck) \<noteq> Blocked"
proof -
  note t = edge_blocked_iff [of low_bridge_edge _ _ fitting_truck]
  have 1: "calculate_edge_weight low_bridge_edge ''truck_compatible'' (Some tall_truck) = Blocked"
    using t [of "''truck_compatible''" "Some tall_truck"]
    by (simp add: low_bridge_edge_def tall_truck_def)
  have 2: "calculate_edge_weight low_bridge_edge ''safest'' (Some tall_truck) \<noteq> Blocked"
    using t [of "''safest''" "Some tall_truck"] by simp
  have 3: "calculate_edge_weight low_bridge_edge ''truck_compatible'' (Some fitting_truck) \<noteq> Blocked"
    using t [of "''truck_compatible''" "Some fitting_truck"]
    by (simp add: low_bridge_edge_def fitting_truck_def)
  from 1 2 3 show ?thesis by simp
qed

subsection \<open>Claim C10\<close>

lemma criterion_row_unknown:
  "c \<notin> {''fastest'', ''best_surface'', ''safest'', ''truck_compatible''}
   \<Longrightarrow> criterion_row c = criterion_row ''fastest''"
  by (simp add: criterion_row_def dict_get_def dict_item_def CRITERIA_MULTIPLIERS_def)

lemma total_weight_cong_row:
  "criterion_row c = criterion_row c' \<Longrightarrow> total_weight e c = total_weight e c'"
  by (simp add: total_weight_def highway_term_def surface_term_def smoothness_term_def
      safety_term_def)

text \<open>
  C10: for every criterion string that is not one of the four known criteria, the
  cost function takes the multiplier row of \<^verbatim>\<open>fastest\<close>, returns the same weight as
  with the criterion \<^verbatim>\<open>fastest\<close>, and applies no truck gating: the weight is the plain
  product (the length on a connector), never the blocked sentinel.
\<close>

theorem unknown_criterion_as_fastest:
  assumes "c \<notin> {''fastest'', ''best_surface'', ''safest'', ''truck_compatible''}"
  shows "criterion_row c = dict_item CRITERIA_MULTIPLIERS ''fastest''
    \<and> calculate_edge_weight e c v = calculate_edge_weight e ''fastest'' v
    \<and> calculate_edge_weight e c v
        = Cost (if connector e then edge_distance e else total_weight e ''fastest'')"
proof -
  have row: "criterion_row c = criterion_row ''fastest''"
    using assms by (rule criterion_row_unknown)
  have tw: "total_weight e c = total_weight e ''fastest''"
    using row by (rule total_weight_cong_row)
  have ne: "c \<noteq> ''truck_compatible''" using assms by auto
  have "criterion_row ''fastest'' = dict_item CRITERIA_MULTIPLIERS ''fastest''"
    by (simp add: criterion_row_def dict_get_def dict_item_def CRITERIA_MULTIPLIERS_def)
  with row tw ne show ?thesis by (simp add: calculate_edge_weight_def)
qed

text \<open>C10 at the criterion \<^verbatim>\<open>scenic\<close>, for a tall truck at a low bridge of 2 km.\<close>

theorem unknown_criterion_as_fastest_witness:
  "''scenic'' \<notin> {''fastest'', ''best_surface'', ''safest'', ''truck_compatible''}
   \<and> calculate_edge_weight low_bridge_edge ''scenic'' (Some tall_truck)
       = calculate_edge_weight low_bridge_edge ''fastest'' (Some tall_truck)
   \<and> calculate_edge_weight low_bridge_edge ''scenic'' (Some tall_truck) = Cost 2"
proof -
  have h: "''scenic'' \<notin> {''fastest'', ''best_surface'', ''safest'', ''truck_compatible''}"
    by simp
  have c: "\<not> connector low_bridge_edge" by (simp add: low_bridge_edge_def)
  note t = unknown_criterion_as_fastest [OF h, of low_bridge_edge "Some tall_truck"]
  have a: "calculate_edge_weight low_bridge_edge ''scenic'' (Some tall_truck)
       = calculate_edge_weight low_bridge_edge ''fastest'' (Some tall_truck)"
    using t by (rule conjunct2 [THEN conjunct1])
  have b: "calculate_edge_weight low_bridge_edge ''scenic'' (Some tall_truck) = Cost 2"
    using t [THEN conjunct2, THEN conjunct2]
    by (simp only: total_weight_low_bridge c if_False)
  from h a b show ?thesis by (intro conjI)
qed

subsection \<open>Claim C3\<close>

lemma code_points_walk: "code_points (Some ''walk'') = Some [119, 97, 108, 107]"
  by (simp add: code_points_def)

lemma py_split_walk: "py_split [119, 97, 108, 107] = [[119, 97, 108, 107]]"
  by (simp add: py_split_def is_space_def whitespace_points_def)

lemma py_int_walk: "py_int [119, 97, 108, 107] = None"
  by (simp add: py_int_def py_strip_def is_space_def whitespace_points_def int_of_digits_def
      digit_value_def decimal_zeros_def)

lemma plain_edge:
  "way_edge (\<lambda>s. None) plain_tags 1 =
     Inr \<lparr>distance = Some 1, connector = False, highway = Some ''residential'', surface = None,
      smoothness = None, lit = None, traffic_signals = None, maxspeed = Some None,
      maxheight = None, maxweight = None, hgv = None, access = None\<rparr>"
  by (simp add: way_edge_def extract_tags_def parse_maxspeed_def parse_metric_def
      code_points_def plain_tags_def)

lemma odd_edge:
  "way_edge (\<lambda>s. None) odd_speed_tags 1 =
     Inr \<lparr>distance = Some 1, connector = False, highway = Some ''residential'', surface = None,
      smoothness = None, lit = None, traffic_signals = None, maxspeed = Some None,
      maxheight = None, maxweight = None, hgv = None, access = None\<rparr>"
proof -
  have "parse_maxspeed (code_points (Some ''walk'')) = Inr None"
    unfolding code_points_walk
    by (simp add: parse_maxspeed_def parse_maxspeed_body_def py_split_walk py_int_walk)
  then show ?thesis
    by (simp add: way_edge_def extract_tags_def parse_metric_def odd_speed_tags_def)
       (simp add: code_points_def)
qed

text \<open>
  C3 states that an edge whose maxspeed is absent, the raw tag missing or unparseable,
  gets the speed penalty of the default 50 km/h, 1.2. The graph builder stores the key
  \<^verbatim>\<open>maxspeed\<close> with the value \<^verbatim>\<open>None\<close> on such an edge, so the default of
  \<^verbatim>\<open>edge_data.get("maxspeed", DEFAULTS["maxspeed"])\<close> is not taken and no speed penalty
  is applied: on the edge of a way tagged only \<^verbatim>\<open>highway=residential\<close>, and on one tagged
  \<^verbatim>\<open>maxspeed=walk\<close>, the speed factor is 1 and the safety excess is 0.
\<close>

theorem stored_none_maxspeed_skips_default:
  "map_sum id speed_factor (way_edge (\<lambda>s. None) plain_tags 1) = Inr 1
   \<and> map_sum id get_safety_weight (way_edge (\<lambda>s. None) plain_tags 1) = Inr 0
   \<and> map_sum id speed_factor (way_edge (\<lambda>s. None) odd_speed_tags 1) = Inr 1
   \<and> get_speed_penalty DEFAULTS_maxspeed = 1.2"
  by (simp add: plain_edge odd_edge speed_factor_def maxspeed_or_default_def
      get_safety_weight_def lit_factor_def signals_factor_def truthy_str_def dict_item_def
      SAFETY_FACTORS_lit_def get_speed_penalty_def DEFAULTS_maxspeed_def)

section \<open>Properties of the alert generator\<close>

subsection \<open>Claim C4\<close>

lemma mud_edge:
  "way_edge (\<lambda>s. None) mud_tags 1 =
     Inr \<lparr>distance = Some 1, connector = False, highway = Some ''track'', surface = Some ''mud'',
      smoothness = None, lit = None, traffic_signals = None, maxspeed = Some None,
      maxheight = None, maxweight = None, hgv = None, access = None\<rparr>"
  by (simp add: way_edge_def extract_tags_def parse_maxspeed_def parse_metric_def
      code_points_def mud_tags_def)

text \<open>
  C4 states that an edge with surface \<^verbatim>\<open>mud\<close> gets two alerts, the yellow
  \<^verbatim>\<open>Unpaved road: mud\<close> and the red \<^verbatim>\<open>Poor surface condition: mud\<close>. The red rule is the
  \<^verbatim>\<open>elif\<close> of the yellow one, so on the edge of a way tagged \<^verbatim>\<open>highway=track\<close>,
  \<^verbatim>\<open>surface=mud\<close> the generator emits the yellow alert alone.
\<close>

theorem mud_emits_yellow_alert_only:
  "map_sum id (\<lambda>e. generate_alerts_for_edge (\<lambda>x. []) e None (Some 0) (Some 0))
      (way_edge (\<lambda>s. None) mud_tags 1)
   = Inr [\<lparr>level = Yellow, message = ''Unpaved road: mud'',
           location = Some \<lparr>lat = 0, lon = 0\<rparr>\<rparr>]"
  by (simp add: mud_edge generate_alerts_for_edge_def mk_location_def surface_alerts_def
      smoothness_alerts_def lit_alerts_def speed_alerts_def)

section \<open>Properties of deduplication and summary\<close>

subsection \<open>Claim C7\<close>

lemma dedup_loop_shape:
  "\<exists>ys. dedup_loop seen acc xs = acc @ ys \<and> subseq ys xs
        \<and> message ` set ys \<inter> seen = {} \<and> distinct (map message ys)"
proof (induction xs arbitrary: seen acc)
  case Nil
  show ?case by simp
next
  case (Cons a xs)
  show ?case
  proof (cases "message a \<in> seen")
    case True
    from Cons.IH [of seen acc] obtain ys where
      "dedup_loop seen acc xs = acc @ ys" "subseq ys xs"
      "message ` set ys \<inter> seen = {}" "distinct (map message ys)" by blast
    with True show ?thesis by auto
  next
    case False
    from Cons.IH [of "insert (message a) seen" "acc @ [a]"] obtain ys where
      ys: "dedup_loop (insert (message a) seen) (acc @ [a]) xs = (acc @ [a]) @ ys"
      "subseq ys xs" "message ` set ys \<inter> insert (message a) seen = {}"
      "distinct (map message ys)" by blast
    have "dedup_loop seen acc (a # xs) = acc @ (a # ys)" using False ys(1) by simp
    moreover have "subseq (a # ys) (a # xs)" using ys(2) by simp
    moreover have "message ` set (a # ys) \<inter> seen = {}" using False ys(3) by auto
    moreover have "distinct (map message (a # ys))" using ys(3,4) by auto
    ultimately show ?thesis by blast
  qed
qed

lemma subseq_sorted_wrt: "subseq xs ys \<Longrightarrow> sorted_wrt R ys \<Longrightarrow> sorted_wrt R xs"
proof (induction rule: list_emb.induct)
  case (list_emb_Nil ys)
  show ?case by simp
next
  case (list_emb_Cons xs ys y)
  then show ?case by simp
next
  case (list_emb_Cons2 x y xs ys)
  have "set xs \<subseteq> set ys"
    using list_emb_set [OF list_emb_Cons2(2)] by auto
  with list_emb_Cons2 show ?case by auto
qed

lemma level_rank_inj: "level_rank a = level_rank b \<longleftrightarrow> a = b"
  by (cases a; cases b) simp_all

lemma unique_alerts_of_props:
  "subseq (unique_alerts_of xs) (sort_key (\<lambda>a. level_rank (level a)) xs)
   \<and> distinct (map message (unique_alerts_of xs))"
  using dedup_loop_shape [of "{}" "[]" "sort_key (\<lambda>a. level_rank (level a)) xs"]
  by (auto simp: unique_alerts_of_def)

lemma deduplicate_subseq:
  "subseq (deduplicate_alerts xs) (sort_key (\<lambda>a. level_rank (level a)) xs)"
proof -
  have "subseq (take 10 (unique_alerts_of xs)) (unique_alerts_of xs)"
    by (rule prefix_imp_subseq) (rule take_is_prefix)
  then show ?thesis
    unfolding deduplicate_alerts_def
    using unique_alerts_of_props [of xs] subseq_order.order_trans by blast
qed

lemma filter_level_sort:
  "filter (\<lambda>a. level a = l) (sort_key (\<lambda>a. level_rank (level a)) xs)
     = filter (\<lambda>a. level a = l) xs"
  using sort_key_stable [of "\<lambda>a. level_rank (level a)" "level_rank l" xs]
  by (simp add: level_rank_inj)

text \<open>
  C7: for every list of alerts, the deduplicated list has at most 10 entries, no two of
  its alerts have the same message, it is ordered by severity (every red before every
  yellow, every yellow before every green), and within each severity its alerts come in
  the order that they have in the input.
\<close>

theorem deduplicate_alerts_bounded_distinct_sorted:
  "length (deduplicate_alerts xs) \<le> 10
   \<and> distinct (map message (deduplicate_alerts xs))
   \<and> sorted (map (\<lambda>a. level_rank (level a)) (deduplicate_alerts xs))
   \<and> subseq (filter (\<lambda>a. level a = l) (deduplicate_alerts xs)) (filter (\<lambda>a. level a = l) xs)"
proof -
  have 1: "length (deduplicate_alerts xs) \<le> 10" by (simp add: deduplicate_alerts_def)
  have 2: "distinct (map message (deduplicate_alerts xs))"
    using unique_alerts_of_props [of xs]
    by (simp add: deduplicate_alerts_def take_map [symmetric])
  have "sorted (map (\<lambda>a. level_rank (level a)) (sort_key (\<lambda>a. level_rank (level a)) xs))"
    by (rule sorted_sort_key)
  then have 3: "sorted (map (\<lambda>a. level_rank (level a)) (deduplicate_alerts xs))"
    using subseq_sorted_wrt [OF subseq_map [OF deduplicate_subseq [of xs]]] by blast
  have 4: "subseq (filter (\<lambda>a. level a = l) (deduplicate_alerts xs))
      (filter (\<lambda>a. level a = l) xs)"
    using subseq_filter [OF deduplicate_subseq [of xs], of "\<lambda>a. level a = l"]
    by (simp only: filter_level_sort)
  from 1 2 3 4 show ?thesis by (intro conjI)
qed

subsection \<open>Claim C5\<close>

lemma rough_edge_alerts:
  "generate_alerts_for_edge fmt (rough_edge s sm l) None (Some 0) (Some 0)
   = surface_alerts (Some \<lparr>lat = 0, lon = 0\<rparr>) (rough_edge s sm l)
     @ smoothness_alerts (Some \<lparr>lat = 0, lon = 0\<rparr>) (rough_edge s sm l)
     @ lit_alerts (Some \<lparr>lat = 0, lon = 0\<rparr>) (rough_edge s sm l)"
  by (simp add: generate_alerts_for_edge_def Let_def mk_location_def speed_alerts_def rough_edge_def)

lemma rough_get_edge_data:
  "get_edge_data rough_road Origin (OsmNode 1) = Some (connector_edge 0)"
  "get_edge_data rough_road (OsmNode 1) (OsmNode 2) = Some (rough_edge ''unpaved'' ''bad'' (Some ''no''))"
  "get_edge_data rough_road (OsmNode 2) (OsmNode 3) = Some (rough_edge ''dirt'' ''very_bad'' None)"
  "get_edge_data rough_road (OsmNode 3) (OsmNode 4) = Some (rough_edge ''gravel'' ''horrible'' None)"
  "get_edge_data rough_road (OsmNode 4) (OsmNode 5) = Some (rough_edge ''mud'' ''very_horrible'' None)"
  "get_edge_data rough_road (OsmNode 5) (OsmNode 6) = Some (rough_edge ''sand'' ''impassable'' None)"
  "get_edge_data rough_road (OsmNode 6) Destination = Some (connector_edge 0)"
  by (simp_all add: get_edge_data_def parallel_edges_def rough_road_def)

lemma rough_nodes:
  "nodes rough_road Origin = Some \<lparr>lat = 0, lon = 0\<rparr>"
  "nodes rough_road Destination = Some \<lparr>lat = 0, lon = 0\<rparr>"
  "\<And>i. i \<in> {1, 2, 3, 4, 5, 6} \<Longrightarrow> nodes rough_road (OsmNode i) = Some \<lparr>lat = 0, lon = 0\<rparr>"
  by (auto simp: rough_road_def)

lemma rough_walk:
  "walk_path fmt rough_road None rough_path (0, [], [])
   = Inr (5, [(0, 0), (0, 0), (0, 0), (0, 0), (0, 0), (0, 0), (0, 0)], rough_alerts)"
  by (simp add: rough_path_def rough_nodes rough_get_edge_data rough_edge_alerts)
     (simp add: connector_edge_def rough_edge_def surface_alerts_def smoothness_alerts_def
        lit_alerts_def rough_alerts_def at_zero_def)

lemma rough_unique_alerts: "unique_alerts_of rough_alerts = rough_unique"
  by (simp add: unique_alerts_of_def rough_alerts_def rough_unique_def at_zero_def)

lemma str_of_nat_small: "n < 10 \<Longrightarrow> str_of_nat n = [digit_char n]"
  by (simp add: str_of_nat.simps)

lemma no_green_surface: "a \<in> set (surface_alerts loc e) \<Longrightarrow> level a \<noteq> Green"
  by (cases "surface e") (auto simp: surface_alerts_def split: if_splits)

lemma no_green_smoothness: "a \<in> set (smoothness_alerts loc e) \<Longrightarrow> level a \<noteq> Green"
  by (cases "smoothness e") (auto simp: smoothness_alerts_def split: if_splits)

lemma no_green_lit: "a \<in> set (lit_alerts loc e) \<Longrightarrow> level a \<noteq> Green"
  by (auto simp: lit_alerts_def split: if_splits)

lemma no_green_speed: "a \<in> set (speed_alerts loc e) \<Longrightarrow> level a \<noteq> Green"
proof (cases "maxspeed e")
  case None
  assume "a \<in> set (speed_alerts loc e)"
  with None show ?thesis by (simp add: speed_alerts_def)
next
  case (Some m)
  assume "a \<in> set (speed_alerts loc e)"
  with Some show ?thesis
    by (cases m) (auto simp: speed_alerts_def split: if_splits)
qed

lemma no_green_height: "a \<in> set (height_alerts fmt loc e v) \<Longrightarrow> level a \<noteq> Green"
  by (auto simp: height_alerts_def split: if_splits)

lemma no_green_weight: "a \<in> set (weight_alerts fmt loc e v) \<Longrightarrow> level a \<noteq> Green"
  by (auto simp: weight_alerts_def split: if_splits)

lemma no_green_hgv: "a \<in> set (hgv_alerts loc e) \<Longrightarrow> level a \<noteq> Green"
  by (auto simp: hgv_alerts_def split: if_splits)

lemma no_green_access: "a \<in> set (access_alerts loc e) \<Longrightarrow> level a \<noteq> Green"
  by (cases "access e") (auto simp: access_alerts_def split: if_splits)

lemma generate_alerts_no_green:
  assumes "a \<in> set (generate_alerts_for_edge fmt e v la lo)"
  shows "level a \<noteq> Green"
proof -
  let ?loc = "mk_location la lo"
  from assms have c: "\<not> connector e"
    by (auto simp: generate_alerts_for_edge_def Let_def split: if_splits)
  with assms have
    "a \<in> set (surface_alerts ?loc e) \<or> a \<in> set (smoothness_alerts ?loc e)
     \<or> a \<in> set (lit_alerts ?loc e) \<or> a \<in> set (speed_alerts ?loc e)
     \<or> (\<exists>t. a \<in> set (height_alerts fmt ?loc e t) \<or> a \<in> set (weight_alerts fmt ?loc e t)
           \<or> a \<in> set (hgv_alerts ?loc e) \<or> a \<in> set (access_alerts ?loc e))"
    by (cases v) (auto simp: generate_alerts_for_edge_def Let_def split: if_splits)
  then show ?thesis
    by (auto dest: no_green_surface no_green_smoothness no_green_lit no_green_speed
        no_green_height no_green_weight no_green_hgv no_green_access)
qed

lemma walk_path_no_green:
  "walk_path fmt G v path acc = Inr res \<Longrightarrow> \<forall>a \<in> set (snd (snd acc)). level a \<noteq> Green
   \<Longrightarrow> \<forall>a \<in> set (snd (snd res)). level a \<noteq> Green"
proof (induction fmt G v path acc rule: walk_path.induct)
  case (1 fmt G vehicle node1 node2 rest total_km geom all_alerts)
  from "1.prems"(1) obtain c1 c2 ed where
    n1: "nodes G node1 = Some c1" and n2: "nodes G node2 = Some c2"
    and ed: "get_edge_data G node1 node2 = Some ed"
    by (auto split: option.splits)
  let ?acc = "(total_km + (case distance ed of None \<Rightarrow> 0 | Some x \<Rightarrow> x),
     geom @ [(lon c1, lat c1)],
     all_alerts @ (if \<not> connector ed
        then generate_alerts_for_edge fmt ed vehicle (Some (lat c2)) (Some (lon c2)) else []))"
  have step: "walk_path fmt G vehicle (node2 # rest) ?acc = Inr res"
    using "1.prems"(1) n1 n2 ed by simp
  have "\<forall>a \<in> set (snd (snd ?acc)). level a \<noteq> Green"
    using "1.prems"(2) by (auto dest: generate_alerts_no_green)
  with "1.IH" [OF n1 n2 ed step] show ?case by simp
qed auto

lemma path_alerts_no_green: "a \<in> set (path_alerts fmt G v path) \<Longrightarrow> level a \<noteq> Green"
proof (cases "walk_path fmt G v path (0, [], [])")
  case (Inl e)
  assume "a \<in> set (path_alerts fmt G v path)"
  with Inl show ?thesis by (simp add: path_alerts_def)
next
  case (Inr res)
  assume a: "a \<in> set (path_alerts fmt G v path)"
  have "\<forall>a \<in> set (snd (snd res)). level a \<noteq> Green"
    using walk_path_no_green [OF Inr] by simp
  with a Inr show ?thesis by (auto simp: path_alerts_def split: prod.splits)
qed

lemma set_deduplicate: "set (deduplicate_alerts xs) \<subseteq> set xs"
proof
  fix a assume "a \<in> set (deduplicate_alerts xs)"
  with deduplicate_subseq [of xs]
  have "a \<in> set (sort_key (\<lambda>a. level_rank (level a)) xs)"
    by (auto elim: list_emb_set)
  then show "a \<in> set xs" by simp
qed

lemma count_levels:
  "\<forall>a \<in> set xs. level a \<noteq> Green
   \<Longrightarrow> length (filter (\<lambda>a. level a = Red) xs) + length (filter (\<lambda>a. level a = Yellow) xs)
       = length xs"
proof (induction xs)
  case Nil
  show ?case by simp
next
  case (Cons a xs)
  then show ?case by (cases "level a") auto
qed

lemma summarize_no_green:
  assumes "\<forall>a \<in> set xs. level a \<noteq> Green"
  shows "summarize_alerts xs = spec_summary xs"
proof (cases "xs = []")
  case True
  then show ?thesis by (simp add: summarize_alerts_def spec_summary_def)
next
  case False
  then have "0 < length xs" by simp
  with count_levels [OF assms]
  have "0 < length (filter (\<lambda>a. level a = Red) xs) \<or> 0 < length (filter (\<lambda>a. level a = Yellow) xs)"
    by linarith
  then show ?thesis
    using False by (auto simp: summarize_alerts_def spec_summary_def Let_def)
qed

lemma single_route_alerts:
  assumes "calculate_single_route sp fmt G c v = Inr (Some r)"
  shows "\<exists>path. sp (create_weighted_graph G c v) = Inr path
          \<and> alerts r = deduplicate_alerts (path_alerts fmt G v path)
          \<and> summary r = summarize_alerts (alerts r)"
proof (cases "sp (create_weighted_graph G c v)")
  case (Inl e)
  with assms show ?thesis
    by (cases e) (simp_all add: calculate_single_route_def)
next
  case (Inr path)
  with assms show ?thesis
    by (auto simp: calculate_single_route_def path_alerts_def Let_def
        split: sum.splits option.splits prod.splits)
qed

text \<open>
  C5 as amended: for every route that the planner returns, the summary is
  \<^verbatim>\<open>Route is clear with no warnings\<close> when the alert list of the route is empty and
  otherwise the comma-joined counts of critical alerts and of cautions; the counts are
  taken from the alert list of the route, which is the deduplicated list after its
  truncation to 10 entries.
\<close>

theorem summary_counts_truncated_alerts:
  assumes "calculate_single_route sp fmt G c v = Inr (Some r)"
  shows "summary r = spec_summary (alerts r) \<and> length (alerts r) \<le> 10
    \<and> (\<exists>path. sp (create_weighted_graph G c v) = Inr path
          \<and> alerts r = take 10 (unique_alerts_of (path_alerts fmt G v path)))"
proof -
  from single_route_alerts [OF assms] obtain path where
    p: "sp (create_weighted_graph G c v) = Inr path"
    and a: "alerts r = deduplicate_alerts (path_alerts fmt G v path)"
    and s: "summary r = summarize_alerts (alerts r)" by blast
  have "\<forall>x \<in> set (alerts r). level x \<noteq> Green"
    using a set_deduplicate [of "path_alerts fmt G v path"]
    by (auto dest: path_alerts_no_green)
  then have 1: "summary r = spec_summary (alerts r)"
    using s by (simp add: summarize_no_green)
  have 2: "length (alerts r) \<le> 10" using a by (simp add: deduplicate_alerts_def)
  from 1 2 p a show ?thesis by (auto simp: deduplicate_alerts_def)
qed

lemma rough_path_alerts: "path_alerts fmt rough_road None rough_path = rough_alerts"
  by (simp add: path_alerts_def rough_walk)

lemma rough_summary_truncated:
  "summarize_alerts (take 10 rough_unique) = ''4 critical alert(s), 6 caution(s)''"
  by (simp add: summarize_alerts_def rough_unique_def at_zero_def str_of_nat_small digit_char_def)

lemma rough_summary_full:
  "spec_summary rough_unique = ''4 critical alert(s), 7 caution(s)''"
  by (simp add: spec_summary_def rough_unique_def at_zero_def str_of_nat_small digit_char_def)

lemma rough_route:
  "calculate_single_route rough_search fmt rough_road ''fastest'' None
   = Inr (Some \<lparr>rtype = ''fastest'', total_distance = 5,
                geometry = [(0, 0), (0, 0), (0, 0), (0, 0), (0, 0), (0, 0), (0, 0), (0, 0)],
                alerts = take 10 rough_unique,
                summary = ''4 critical alert(s), 6 caution(s)''\<rparr>)"
  by (simp add: calculate_single_route_def rough_search_def rough_walk rough_nodes
      deduplicate_alerts_def rough_unique_alerts rough_summary_truncated route_type_map_def
      del: take_Suc_Cons)

text \<open>
  C5 states that the counts of the summary are those of the deduplicated list before
  its truncation to 10 entries. On a path over five rough edges with 11 distinct alert
  messages (4 red, 7 yellow) the summary of the route counts 6 cautions, the 10 alerts
  that are kept, where the list before truncation has 7.
\<close>

theorem summary_counts_after_truncation:
  "map_sum id (map_option summary)
      (calculate_single_route rough_search (\<lambda>x. []) rough_road ''fastest'' None)
     = Inr (Some ''4 critical alert(s), 6 caution(s)'')
   \<and> spec_summary (unique_alerts_of (path_alerts (\<lambda>x. []) rough_road None rough_path))
     = ''4 critical alert(s), 7 caution(s)''"
  by (simp add: rough_route rough_path_alerts rough_unique_alerts rough_summary_full)

text \<open>C5 as amended, at the route over the five rough edges.\<close>

theorem summary_counts_truncated_alerts_witness:
  "summary \<lparr>rtype = ''fastest'', total_distance = 5,
            geometry = [(0, 0), (0, 0), (0, 0), (0, 0), (0, 0), (0, 0), (0, 0), (0, 0)],
            alerts = take 10 rough_unique,
            summary = ''4 critical alert(s), 6 caution(s)''\<rparr>
     = spec_summary (take 10 rough_unique)
   \<and> length (take 10 rough_unique) \<le> 10"
  using summary_counts_truncated_alerts [OF rough_route [of "\<lambda>x. []"]] by simp

text \<open>C7 at the eleven alerts of the five rough edges, for the red alerts.\<close>

theorem deduplicate_alerts_bounded_distinct_sorted_witness:
  "deduplicate_alerts rough_alerts = take 10 rough_unique
   \<and> length (deduplicate_alerts rough_alerts) \<le> 10
   \<and> distinct (map message (deduplicate_alerts rough_alerts))
   \<and> sorted (map (\<lambda>a. level_rank (level a)) (deduplicate_alerts rough_alerts))
   \<and> subseq (filter (\<lambda>a. level a = Red) (deduplicate_alerts rough_alerts))
        (filter (\<lambda>a. level a = Red) rough_alerts)"
proof -
  have "deduplicate_alerts rough_alerts = take 10 rough_unique"
    by (simp only: deduplicate_alerts_def rough_unique_alerts)
  with deduplicate_alerts_bounded_distinct_sorted [of rough_alerts Red]
  show ?thesis by (intro conjI) blast+
qed

section \<open>Properties of the route planner\<close>

subsection \<open>Claim C2\<close>

lemma add_weighted_edges_pair:
  "add_weighted_edges c veh w es (u, v)
   = (let ws = finite_weights c veh
                 (map (\<lambda>(a, b, d). d) (filter (\<lambda>(a, b, d). a = u \<and> b = v) es))
      in if ws = [] then w (u, v) else Some (last ws))"
proof (induction es arbitrary: w)
  case Nil
  show ?case by simp
next
  case (Cons e es)
  obtain a b d where e: "e = (a, b, d)" by (cases e)
  show ?case
  proof (cases "calculate_edge_weight d c veh")
    case Blocked
    then show ?thesis by (simp add: Cons.IH e Let_def)
  next
    case (Cost x)
    then show ?thesis by (simp add: Cons.IH e Let_def)
  qed
qed

lemma weighted_view_pair:
  "wweight (create_weighted_graph G c veh) (u, v)
   = (if finite_weights c veh (parallel_edges G u v) = [] then None
      else Some (last (finite_weights c veh (parallel_edges G u v))))"
  by (simp add: create_weighted_graph_def add_weighted_edges_pair parallel_edges_def Let_def)

lemma get_edge_data_first:
  "get_edge_data G u v
   = (if parallel_edges G u v = [] then None else Some (hd (parallel_edges G u v)))"
  by (cases "parallel_edges G u v") (simp_all add: get_edge_data_def)

text \<open>
  C2 as amended: for every pair of nodes, the weight that the weighted view offers to
  the search is the weight of the last of the parallel edges that is not blocked, in
  the order of their insertion (none when all are blocked), and the attributes that the
  planner reads for the segment, for its length and for alert generation, are those of
  the first parallel edge.
\<close>

theorem weighted_view_keeps_last_parallel_edge:
  "wweight (create_weighted_graph G c veh) (u, v)
     = (if finite_weights c veh (parallel_edges G u v) = [] then None
        else Some (last (finite_weights c veh (parallel_edges G u v))))
   \<and> get_edge_data G u v
     = (if parallel_edges G u v = [] then None else Some (hd (parallel_edges G u v)))
   \<and> (nodes G u = Some cu \<and> nodes G v = Some cv \<and> parallel_edges G u v = d # ds
      \<longrightarrow> walk_path fmt G veh [u, v] (t, g, al)
          = Inr (t + (case distance d of None \<Rightarrow> 0 | Some x \<Rightarrow> x), g @ [(lon cu, lat cu)],
                 al @ (if \<not> connector d
                       then generate_alerts_for_edge fmt d veh (Some (lat cv)) (Some (lon cv))
                       else [])))"
proof -
  have "nodes G u = Some cu \<and> nodes G v = Some cv \<and> parallel_edges G u v = d # ds
      \<longrightarrow> walk_path fmt G veh [u, v] (t, g, al)
          = Inr (t + (case distance d of None \<Rightarrow> 0 | Some x \<Rightarrow> x), g @ [(lon cu, lat cu)],
                 al @ (if \<not> connector d
                       then generate_alerts_for_edge fmt d veh (Some (lat cv)) (Some (lon cv))
                       else []))"
    by (simp add: get_edge_data_def)
  with weighted_view_pair [of G c veh u v] get_edge_data_first [of G u v]
  show ?thesis by (intro conjI)
qed

lemma motorway_weight: "calculate_edge_weight motorway_edge ''fastest'' None = Cost 10"
  by (simp add: calculate_edge_weight_def total_weight_def highway_term_def surface_term_def
      smoothness_term_def safety_term_def get_highway_weight_def get_surface_weight_def
      get_smoothness_weight_def truthy_str_def edge_distance_def motorway_edge_def
      criterion_row_def dict_get_def dict_item_def CRITERIA_MULTIPLIERS_def HIGHWAY_WEIGHTS_def)

lemma mud_track_weight: "calculate_edge_weight mud_track_edge ''fastest'' None = Cost 51"
  by (simp add: calculate_edge_weight_def total_weight_def highway_term_def surface_term_def
      smoothness_term_def safety_term_def get_highway_weight_def get_surface_weight_def
      get_smoothness_weight_def truthy_str_def edge_distance_def mud_track_edge_def
      criterion_row_def dict_get_def dict_item_def CRITERIA_MULTIPLIERS_def HIGHWAY_WEIGHTS_def
      SURFACE_WEIGHTS_def)

lemma fast_first_parallel:
  "parallel_edges fast_first (OsmNode 1) (OsmNode 2) = [motorway_edge, mud_track_edge]"
  by (simp add: parallel_edges_def fast_first_def)

lemma rough_first_parallel:
  "parallel_edges rough_first (OsmNode 1) (OsmNode 2) = [mud_track_edge, motorway_edge]"
  by (simp add: parallel_edges_def rough_first_def)

lemma mud_track_alerts:
  "generate_alerts_for_edge fmt mud_track_edge None (Some 1) (Some 1)
   = [\<lparr>level = Yellow, message = ''Unpaved road: mud'', location = Some \<lparr>lat = 1, lon = 1\<rparr>\<rparr>]"
  by (simp add: generate_alerts_for_edge_def Let_def mk_location_def surface_alerts_def
      smoothness_alerts_def lit_alerts_def speed_alerts_def mud_track_edge_def)

lemma rough_first_nodes:
  "nodes rough_first (OsmNode 1) = Some \<lparr>lat = 0, lon = 0\<rparr>"
  "nodes rough_first (OsmNode 2) = Some \<lparr>lat = 1, lon = 1\<rparr>"
  by (simp_all add: rough_first_def)

lemma mud_track_fields: "\<not> connector mud_track_edge" "distance mud_track_edge = Some 10"
  by (simp_all add: mud_track_edge_def)

lemma rough_first_walk:
  "walk_path fmt rough_first None [OsmNode 1, OsmNode 2] (0, [], [])
   = Inr (10, [(0, 0)],
          [\<lparr>level = Yellow, message = ''Unpaved road: mud'',
            location = Some \<lparr>lat = 1, lon = 1\<rparr>\<rparr>])"
  by (simp add: rough_first_nodes get_edge_data_first rough_first_parallel mud_track_fields
      mud_track_alerts)

text \<open>
  C2 states that for parallel edges the search considers the minimum-weight edge and
  that alert generation consumes the attributes of that edge. With a motorway (weight
  10) inserted before a mud track (weight 51) between the same nodes, the view offers
  51; with the mud track inserted first, the view offers 10, the weight of the motorway,
  and the alert of the segment is that of the mud track.
\<close>

theorem parallel_edges_not_minimum:
  "parallel_edges fast_first (OsmNode 1) (OsmNode 2) = [motorway_edge, mud_track_edge]
   \<and> calculate_edge_weight motorway_edge ''fastest'' None = Cost 10
   \<and> calculate_edge_weight mud_track_edge ''fastest'' None = Cost 51
   \<and> wweight (create_weighted_graph fast_first ''fastest'' None) (OsmNode 1, OsmNode 2) = Some 51
   \<and> parallel_edges rough_first (OsmNode 1) (OsmNode 2) = [mud_track_edge, motorway_edge]
   \<and> wweight (create_weighted_graph rough_first ''fastest'' None) (OsmNode 1, OsmNode 2) = Some 10
   \<and> get_edge_data rough_first (OsmNode 1) (OsmNode 2) = Some mud_track_edge
   \<and> walk_path (\<lambda>x. []) rough_first None [OsmNode 1, OsmNode 2] (0, [], [])
       = Inr (10, [(0, 0)],
              [\<lparr>level = Yellow, message = ''Unpaved road: mud'',
                location = Some \<lparr>lat = 1, lon = 1\<rparr>\<rparr>])"
proof -
  have 1: "wweight (create_weighted_graph fast_first ''fastest'' None) (OsmNode 1, OsmNode 2)
      = Some 51"
    by (simp add: weighted_view_pair fast_first_parallel motorway_weight mud_track_weight)
  have 2: "wweight (create_weighted_graph rough_first ''fastest'' None) (OsmNode 1, OsmNode 2)
      = Some 10"
    by (simp add: weighted_view_pair rough_first_parallel motorway_weight mud_track_weight)
  have 3: "get_edge_data rough_first (OsmNode 1) (OsmNode 2) = Some mud_track_edge"
    by (simp add: get_edge_data_first rough_first_parallel)
  from fast_first_parallel motorway_weight mud_track_weight 1 rough_first_parallel 2 3
    rough_first_walk [of "\<lambda>x. []"]
  show ?thesis by (intro conjI)
qed

text \<open>C2 as amended, at the motorway inserted before the mud track.\<close>

theorem weighted_view_keeps_last_parallel_edge_witness:
  "wweight (create_weighted_graph fast_first ''fastest'' None) (OsmNode 1, OsmNode 2) = Some 51
   \<and> get_edge_data fast_first (OsmNode 1) (OsmNode 2) = Some motorway_edge
   \<and> walk_path (\<lambda>x. []) fast_first None [OsmNode 1, OsmNode 2] (0, [], [])
       = Inr (10, [(0, 0)], [])"
proof -
  note t = weighted_view_keeps_last_parallel_edge [of fast_first "''fastest''" None "OsmNode 1" "OsmNode 2"
      "\<lparr>lat = 0, lon = 0\<rparr>" "\<lparr>lat = 1, lon = 1\<rparr>" motorway_edge "[mud_track_edge]"
      "\<lambda>x. []" 0 "[]" "[]"]
  have n: "nodes fast_first (OsmNode 1) = Some \<lparr>lat = 0, lon = 0\<rparr>"
    "nodes fast_first (OsmNode 2) = Some \<lparr>lat = 1, lon = 1\<rparr>"
    by (simp_all add: fast_first_def)
  have m: "\<not> connector motorway_edge" "distance motorway_edge = Some 10"
    "generate_alerts_for_edge (\<lambda>x. []) motorway_edge None (Some 1) (Some 1) = []"
    by (simp_all add: motorway_edge_def generate_alerts_for_edge_def Let_def
        surface_alerts_def smoothness_alerts_def lit_alerts_def speed_alerts_def)
  show ?thesis
    using t n m by (simp add: fast_first_parallel motorway_weight mud_track_weight)
qed

subsection \<open>Claim C8\<close>

lemma routes_loop_eq:
  "routes_loop sp fmt G v rs cs = rs @ List.map_filter (yielded_route sp fmt G v) cs"
proof (induction cs arbitrary: rs)
  case Nil
  show ?case by (simp add:)
next
  case (Cons c cs)
  show ?case
  proof (cases "calculate_single_route sp fmt G c v")
    case (Inl e)
    then show ?thesis by (simp add: Cons.IH yielded_route_def)
  next
    case (Inr ro)
    then show ?thesis
      by (cases ro) (simp_all add: Cons.IH yielded_route_def)
  qed
qed

lemma calculate_routes_eq:
  assumes "nodes G Origin \<noteq> None" "nodes G Destination \<noteq> None"
  shows "calculate_routes sp fmt G v
    = (if List.map_filter (yielded_route sp fmt G v) (criteria_for v) = []
       then Inl (Exception ''No valid routes found'')
       else Inr (List.map_filter (yielded_route sp fmt G v) (criteria_for v)))"
  using assms by (simp add: calculate_routes_def routes_loop_eq Let_def)

lemma no_path_yields_none:
  "sp (create_weighted_graph G c v) = Inl NetworkXNoPath
   \<Longrightarrow> calculate_single_route sp fmt G c v = Inr None"
  by (simp add: calculate_single_route_def)

lemma yielded_route_rtype:
  assumes "yielded_route sp fmt G v c = Some r"
  shows "rtype r = c"
proof -
  from assms have r: "calculate_single_route sp fmt G c v = Inr (Some r)"
    by (auto simp: yielded_route_def split: sum.splits option.splits)
  then obtain t where "map_of route_type_map c = Some t" "rtype r = t"
    by (auto simp: calculate_single_route_def Let_def
        split: sum.splits option.splits prod.splits error.splits)
  then show ?thesis
    by (auto simp: route_type_map_def split: if_splits)
qed

lemma map_filter_rtype:
  "r \<in> set (List.map_filter (yielded_route sp fmt G v) cs)
   \<Longrightarrow> \<exists>c \<in> set cs. yielded_route sp fmt G v c = Some r"
  by (auto simp: List.map_filter_def)

text \<open>
  C8: with both terminals in the graph, the result of the planner is the list of the
  routes that the criteria yield, in the order of the criteria; a criterion whose search
  finds no path yields nothing and no route of its type is in the list, without any
  failure; and the planner raises the error \<^verbatim>\<open>No valid routes found\<close> exactly when no
  criterion yields a route, in particular when no search finds a path.
\<close>

theorem no_path_criterion_omitted:
  assumes "nodes G Origin \<noteq> None" and "nodes G Destination \<noteq> None"
  shows "calculate_routes sp fmt G v
      = (if List.map_filter (yielded_route sp fmt G v) (criteria_for v) = []
         then Inl (Exception ''No valid routes found'')
         else Inr (List.map_filter (yielded_route sp fmt G v) (criteria_for v)))
    \<and> (sp (create_weighted_graph G c v) = Inl NetworkXNoPath
        \<longrightarrow> yielded_route sp fmt G v c = None
            \<and> (\<forall>r \<in> set (List.map_filter (yielded_route sp fmt G v) (criteria_for v)).
                  rtype r \<noteq> c))
    \<and> ((\<forall>k \<in> set (criteria_for v). sp (create_weighted_graph G k v) = Inl NetworkXNoPath)
        \<longrightarrow> calculate_routes sp fmt G v = Inl (Exception ''No valid routes found''))
    \<and> (calculate_routes sp fmt G v = Inl (Exception ''No valid routes found'')
        \<longleftrightarrow> (\<forall>k \<in> set (criteria_for v). yielded_route sp fmt G v k = None))"
proof -
  let ?rs = "List.map_filter (yielded_route sp fmt G v) (criteria_for v)"
  have 1: "calculate_routes sp fmt G v
      = (if ?rs = [] then Inl (Exception ''No valid routes found'') else Inr ?rs)"
    using assms by (rule calculate_routes_eq)
  have none: "yielded_route sp fmt G v k = None"
    if "sp (create_weighted_graph G k v) = Inl NetworkXNoPath" for k
    using that no_path_yields_none [of sp G k v fmt] by (simp add: yielded_route_def)
  have 2: "sp (create_weighted_graph G c v) = Inl NetworkXNoPath
        \<longrightarrow> yielded_route sp fmt G v c = None \<and> (\<forall>r \<in> set ?rs. rtype r \<noteq> c)"
  proof (intro impI conjI ballI)
    assume np: "sp (create_weighted_graph G c v) = Inl NetworkXNoPath"
    show "yielded_route sp fmt G v c = None" using np by (rule none)
    fix r assume "r \<in> set ?rs"
    then obtain k where k: "yielded_route sp fmt G v k = Some r"
      using map_filter_rtype by blast
    then have "rtype r = k" by (rule yielded_route_rtype)
    with k none [OF np] show "rtype r \<noteq> c" by auto
  qed
  have empty_iff: "?rs = [] \<longleftrightarrow> (\<forall>k \<in> set (criteria_for v). yielded_route sp fmt G v k = None)"
    by (auto simp: List.map_filter_def filter_empty_conv)
  have 4: "calculate_routes sp fmt G v = Inl (Exception ''No valid routes found'')
        \<longleftrightarrow> (\<forall>k \<in> set (criteria_for v). yielded_route sp fmt G v k = None)"
    unfolding 1 using empty_iff by simp
  have 3: "(\<forall>k \<in> set (criteria_for v). sp (create_weighted_graph G k v) = Inl NetworkXNoPath)
        \<longrightarrow> calculate_routes sp fmt G v = Inl (Exception ''No valid routes found'')"
    unfolding 4 using none by blast
  from 1 2 3 4 show ?thesis by (intro conjI)
qed

lemma bridge_nodes:
  "nodes bridge_graph Origin = Some \<lparr>lat = 0, lon = 0\<rparr>"
  "nodes bridge_graph (OsmNode 1) = Some \<lparr>lat = 0, lon = 0\<rparr>"
  "nodes bridge_graph (OsmNode 2) = Some \<lparr>lat = 1, lon = 1\<rparr>"
  "nodes bridge_graph Destination = Some \<lparr>lat = 1, lon = 1\<rparr>"
  by (simp_all add: bridge_graph_def)

lemma bridge_edges:
  "get_edge_data bridge_graph Origin (OsmNode 1) = Some (connector_edge 0)"
  "get_edge_data bridge_graph (OsmNode 1) (OsmNode 2) = Some low_bridge_edge"
  "get_edge_data bridge_graph (OsmNode 2) Destination = Some (connector_edge 0)"
  by (simp_all add: get_edge_data_def parallel_edges_def bridge_graph_def)

lemma bridge_parallel:
  "parallel_edges bridge_graph (OsmNode 1) (OsmNode 2) = [low_bridge_edge]"
  by (simp add: parallel_edges_def bridge_graph_def)

lemma bridge_walk:
  "walk_path fmt bridge_graph veh [Origin, OsmNode 1, OsmNode 2, Destination] (0, [], [])
   = Inr (2, [(0, 0), (0, 0), (1, 1)],
          generate_alerts_for_edge fmt low_bridge_edge veh (Some 1) (Some 1))"
  by (simp add: bridge_nodes bridge_edges)
     (simp add: connector_edge_def low_bridge_edge_def)

lemma bridge_blocked:
  "calculate_edge_weight low_bridge_edge ''truck_compatible'' (Some tall_truck) = Blocked"
  by (simp add: calculate_edge_weight_def get_truck_restriction_penalty_def truthy_float_def
      low_bridge_edge_def tall_truck_def)

lemma bridge_open:
  "c \<noteq> ''truck_compatible''
   \<Longrightarrow> calculate_edge_weight low_bridge_edge c veh = Cost (total_weight low_bridge_edge c)"
  by (simp add: calculate_edge_weight_def low_bridge_edge_def)

lemma bridge_search_blocked:
  "bridge_search (create_weighted_graph bridge_graph ''truck_compatible'' (Some tall_truck))
   = Inl NetworkXNoPath"
  by (simp add: bridge_search_def weighted_view_pair bridge_parallel bridge_blocked)

lemma bridge_search_open:
  "c \<noteq> ''truck_compatible''
   \<Longrightarrow> bridge_search (create_weighted_graph bridge_graph c veh)
       = Inr [Origin, OsmNode 1, OsmNode 2, Destination]"
  by (simp add: bridge_search_def weighted_view_pair bridge_parallel bridge_open)

lemma bridge_yield_open:
  assumes "c \<noteq> ''truck_compatible''" and "map_of route_type_map c = Some t"
  shows "map_option rtype (yielded_route bridge_search fmt bridge_graph veh c) = Some t"
  using assms
  by (simp add: yielded_route_def calculate_single_route_def bridge_search_open bridge_walk
      bridge_nodes Let_def del: walk_path.simps)

lemma bridge_yield_truck:
  "yielded_route bridge_search fmt bridge_graph (Some tall_truck) ''truck_compatible'' = None"
  by (simp add: yielded_route_def calculate_single_route_def bridge_search_blocked)

lemma bridge_routes_types:
  "map rtype (List.map_filter (yielded_route bridge_search fmt bridge_graph (Some tall_truck))
      (criteria_for (Some tall_truck)))
   = [''fastest'', ''best_surface'', ''safest'']"
proof -
  let ?y = "yielded_route bridge_search fmt bridge_graph (Some tall_truck)"
  have 1: "map_option rtype (?y ''fastest'') = Some ''fastest''"
    by (rule bridge_yield_open) (simp_all add: route_type_map_def)
  have 2: "map_option rtype (?y ''best_surface'') = Some ''best_surface''"
    by (rule bridge_yield_open) (simp_all add: route_type_map_def)
  have 3: "map_option rtype (?y ''safest'') = Some ''safest''"
    by (rule bridge_yield_open) (simp_all add: route_type_map_def)
  from 1 obtain r1 where r1: "?y ''fastest'' = Some r1" "rtype r1 = ''fastest''" by auto
  from 2 obtain r2 where r2: "?y ''best_surface'' = Some r2" "rtype r2 = ''best_surface''"
    by auto
  from 3 obtain r3 where r3: "?y ''safest'' = Some r3" "rtype r3 = ''safest''" by auto
  have c: "criteria_for (Some tall_truck)
      = [''fastest'', ''best_surface'', ''safest'', ''truck_compatible'']"
    by (simp add: criteria_for_def tall_truck_def)
  show ?thesis
    unfolding c using r1 r2 r3 bridge_yield_truck [of fmt]
    by simp
qed

text \<open>
  C8 at a low bridge and a tall truck: the search finds no path under
  \<^verbatim>\<open>truck_compatible\<close>, and the planner returns the other three routes; with a search
  that never finds a path it raises the error.
\<close>

theorem no_path_criterion_omitted_witness:
  "nodes bridge_graph Origin \<noteq> None \<and> nodes bridge_graph Destination \<noteq> None
   \<and> bridge_search (create_weighted_graph bridge_graph ''truck_compatible'' (Some tall_truck))
       = Inl NetworkXNoPath
   \<and> map_sum id (map rtype)
        (calculate_routes bridge_search (\<lambda>x. []) bridge_graph (Some tall_truck))
       = Inr [''fastest'', ''best_surface'', ''safest'']
   \<and> calculate_routes no_path_search (\<lambda>x. []) bridge_graph (Some tall_truck)
       = Inl (Exception ''No valid routes found'')"
proof -
  have o: "nodes bridge_graph Origin \<noteq> None" by (simp add: bridge_nodes)
  have d: "nodes bridge_graph Destination \<noteq> None" by (simp add: bridge_nodes)
  note t = no_path_criterion_omitted [OF o d, of bridge_search "\<lambda>x. []" "Some tall_truck" "''truck_compatible''"]
  note u = no_path_criterion_omitted [OF o d, of no_path_search "\<lambda>x. []" "Some tall_truck" "''truck_compatible''"]
  have ne: "List.map_filter (yielded_route bridge_search (\<lambda>x. []) bridge_graph (Some tall_truck))
      (criteria_for (Some tall_truck)) \<noteq> []"
    using bridge_routes_types [of "\<lambda>x. []"] by auto
  have 1: "map_sum id (map rtype)
        (calculate_routes bridge_search (\<lambda>x. []) bridge_graph (Some tall_truck))
       = Inr [''fastest'', ''best_surface'', ''safest'']"
    using t [THEN conjunct1] ne bridge_routes_types [of "\<lambda>x. []"] by simp
  have 2: "calculate_routes no_path_search (\<lambda>x. []) bridge_graph (Some tall_truck)
       = Inl (Exception ''No valid routes found'')"
    using u [THEN conjunct2, THEN conjunct2, THEN conjunct1]
    by (simp add: no_path_search_def)
  from o d bridge_search_blocked 1 2 show ?thesis by (intro conjI)
qed

section \<open>Properties of the tag normalizer\<close>

subsection \<open>Tags of ordinary size\<close>

text \<open>
  The tags \<^verbatim>\<open>50 mph\<close>, \<^verbatim>\<open>50\<close> and \<^verbatim>\<open>MPH\<close> around a no-break space, and \<^verbatim>\<open>50mph\<close>; and the
  product for an integer beyond 53 bits, which is the rounded one.
\<close>

lemma space_samples:
  "is_space 0x20" "is_space 0xA0" "\<not> is_space 0x30" "\<not> is_space 0x35"
  "\<not> is_space 0x6D" "\<not> is_space 0x70" "\<not> is_space 0x68"
  "\<not> is_space 0x4D" "\<not> is_space 0x50" "\<not> is_space 0x48"
  by (simp_all add: is_space_def whitespace_points_def)

lemma digit_samples:
  "digit_value 0x30 = Some 0" "digit_value 0x35 = Some 5" "digit_value 0x6D = None"
  by (simp_all add: digit_value_def decimal_zeros_def)

lemma bit_length_numeral:
  "bit_length 0 = 0"
  "bit_length 1 = 1"
  "bit_length (numeral (Num.Bit0 k)) = Suc (bit_length (numeral k))"
  "bit_length (numeral (Num.Bit1 k)) = Suc (bit_length (numeral k))"
  by (subst bit_length.simps, simp)+

lemma product_50: "float_of_int 50 = Inr (Finite 50 0)"
  "float_mul (Finite 50 0) float_1_60934 = Finite 5662361737744089 (- 46)"
  "int_of_float (Finite 5662361737744089 (- 46)) = Inr 80"
  by (simp_all add: float_of_int_def float_1_60934_def round53_def bit_length_numeral
      shift_round_even_def Let_def)

lemma int_50: "py_int [0x35, 0x30] = Some 50"
  by (simp add: py_int_def py_strip_def space_samples int_of_digits_def
      digit_count_def int_max_str_digits_def digit_samples)

lemma int_fused: "py_int [0x35, 0x30, 0x6D, 0x70, 0x68] = None"
  by (simp add: py_int_def py_strip_def space_samples int_of_digits_def digit_samples)

lemma split_samples:
  "py_split [0x35, 0x30, 0x20, 0x6D, 0x70, 0x68] = [[0x35, 0x30], [0x6D, 0x70, 0x68]]"
  "py_split [0x35, 0x30, 0xA0, 0x4D, 0x50, 0x48] = [[0x35, 0x30], [0x4D, 0x50, 0x48]]"
  "py_split [0x35, 0x30, 0x6D, 0x70, 0x68] = [[0x35, 0x30, 0x6D, 0x70, 0x68]]"
  by (simp_all add: py_split_def space_samples)

lemma contains_samples:
  "py_contains mph (py_lower [0x35, 0x30, 0x20, 0x6D, 0x70, 0x68])"
  "py_contains mph (py_lower [0x35, 0x30, 0xA0, 0x4D, 0x50, 0x48])"
  by (simp_all add: py_lower_def lower_char_def mph_def)

lemma parse_maxspeed_samples:
  "parse_maxspeed (Some [0x35, 0x30, 0x20, 0x6D, 0x70, 0x68]) = Inr (Some 80)"
  "parse_maxspeed (Some [0x35, 0x30, 0xA0, 0x4D, 0x50, 0x48]) = Inr (Some 80)"
  "parse_maxspeed (Some [0x35, 0x30, 0x6D, 0x70, 0x68]) = Inr None"
  by (simp_all add: parse_maxspeed_def parse_maxspeed_body_def split_samples int_50 int_fused
      contains_samples product_50)

lemma product_beyond_53_bits:
  "float_of_int 100000000000000001 = Inr (Finite 6250000000000000 4)"
  "float_mul (Finite 6250000000000000 4) float_1_60934 = Finite 5029187500000000 5"
  "int_of_float (Finite 5029187500000000 5) = Inr 160934000000000000"
  by (simp_all add: float_of_int_def float_1_60934_def round53_def bit_length_numeral
      shift_round_even_def Let_def)

subsection \<open>Errors of the normalizer\<close>

text \<open>
  A failure to split or to read the integer is caught and gives absence; the one error
  that \<^verbatim>\<open>_parse_maxspeed\<close> lets through is \<^verbatim>\<open>OverflowError\<close>.
\<close>

lemma float_of_int_error: "float_of_int n = Inl e \<Longrightarrow> e = OverflowError"
  by (auto simp: float_of_int_def split: prod.splits if_splits)

lemma int_of_float_error: "int_of_float x = Inl e \<Longrightarrow> e = OverflowError"
  by (cases x) auto

lemma parse_maxspeed_body_error:
  assumes "parse_maxspeed_body v = Inl e"
  shows "e = IndexError \<or> e = ValueError \<or> e = OverflowError"
proof (cases "py_split v")
  case Nil
  with assms show ?thesis by (simp add: parse_maxspeed_body_def)
next
  case (Cons tok rest)
  show ?thesis
  proof (cases "py_int tok")
    case None
    with assms Cons show ?thesis by (simp add: parse_maxspeed_body_def)
  next
    case (Some speed)
    show ?thesis
    proof (cases "float_of_int speed")
      case (Inl e')
      with assms Cons Some float_of_int_error [of speed e'] show ?thesis
        by (simp add: parse_maxspeed_body_def split: if_splits)
    next
      case (Inr x)
      with assms Cons Some int_of_float_error [of "float_mul x float_1_60934" e] show ?thesis
        by (simp add: parse_maxspeed_body_def split: if_splits)
    qed
  qed
qed

lemma parse_maxspeed_error: "parse_maxspeed raw = Inl e \<Longrightarrow> e = OverflowError"
proof -
  assume a: "parse_maxspeed raw = Inl e"
  then obtain v where v: "raw = Some v" "v \<noteq> []"
    by (cases raw) (auto simp: parse_maxspeed_def split: if_splits)
  show ?thesis
  proof (cases "parse_maxspeed_body v")
    case (Inl e')
    with a v parse_maxspeed_body_error [OF Inl] show ?thesis
      by (cases e') (auto simp: parse_maxspeed_def)
  next
    case (Inr s)
    with a v show ?thesis by (simp add: parse_maxspeed_def)
  qed
qed

subsection \<open>Claim C9\<close>

lemma split_from_word:
  "\<forall>c \<in> set ds. \<not> is_space c \<Longrightarrow> split_from cur (ds @ rest) = split_from (cur @ ds) rest"
  by (induction ds arbitrary: cur) simp_all

lemma py_split_word_unit:
  assumes "tok \<noteq> []" "\<forall>c \<in> set tok. \<not> is_space c" "unit \<noteq> []"
    "\<forall>c \<in> set unit. \<not> is_space c" "is_space sp"
  shows "py_split (tok @ sp # unit) = [tok, unit]"
proof -
  have "split_from [] (tok @ sp # unit) = split_from tok (sp # unit)"
    using split_from_word [OF assms(2), of "[]" "sp # unit"] by simp
  also have "\<dots> = tok # split_from [] unit" using assms(1,5) by simp
  also have "split_from [] unit = [unit]"
    using split_from_word [OF assms(4), of "[]" "[]"] assms(3) by simp
  finally show ?thesis by (simp add: py_split_def)
qed

lemma py_split_word:
  assumes "tok \<noteq> []" "\<forall>c \<in> set tok. \<not> is_space c"
  shows "py_split tok = [tok]"
  using split_from_word [OF assms(2), of "[]" "[]"] assms(1) by (simp add: py_split_def)

lemma py_strip_word:
  assumes "\<forall>c \<in> set tok. \<not> is_space c"
  shows "py_strip tok = tok"
proof -
  have d: "dropWhile is_space xs = xs" if "\<forall>c \<in> set xs. \<not> is_space c" for xs
    using that by (cases xs) simp_all
  have "dropWhile is_space (rev tok) = rev tok" using assms by (intro d) simp
  with d [OF assms] show ?thesis by (simp add: py_strip_def)
qed

lemma digit_value_0: "digit_value 0x30 = Some 0"
  by (simp add: digit_value_def decimal_zeros_def)

lemma digit_value_1: "digit_value 0x31 = Some 1"
  by (simp add: digit_value_def decimal_zeros_def)

lemma not_space_digits: "\<not> is_space 0x30" "\<not> is_space 0x31"
  by (simp_all add: is_space_def whitespace_points_def)

lemma digits_ok_zeros: "digits_ok (replicate (Suc n) 0x30)"
  by (induction n) (simp_all add: digit_value_0)

lemma digits_ok_one_zeros: "digits_ok (0x31 # replicate (Suc n) 0x30)"
  using digits_ok_zeros [of n] by (simp add: digit_value_1)

lemma digits_to_int_zeros: "digits_to_int acc (replicate n 0x30) = acc * 10 ^ n"
  by (induction n arbitrary: acc) (simp_all add: digit_value_0)

lemma digit_count_one_zeros: "digit_count (0x31 # replicate n 0x30) = Suc n"
  by (simp add: digit_count_def digit_value_0 digit_value_1)

lemma py_int_one_zeros:
  assumes "n < 4299"
  shows "py_int (0x31 # replicate (Suc n) 0x30) = Some (10 ^ Suc n)"
proof -
  have ns: "\<forall>c \<in> set (0x31 # replicate (Suc n) 0x30). \<not> is_space c"
    using not_space_digits by auto
  have "int_of_digits (0x31 # replicate (Suc n) 0x30) = Some (10 ^ Suc n)"
    using assms digits_ok_one_zeros [of n] digits_to_int_zeros [of 1 "Suc n"]
    by (simp add: int_of_digits_def digit_count_one_zeros int_max_str_digits_def digit_value_1
        del: digits_ok.simps replicate.simps)
  then show ?thesis
    unfolding py_int_def py_strip_word [OF ns] by simp
qed

lemma py_int_huge: "py_int huge_number = Some huge_value"
  using py_int_one_zeros [of 308] by (simp add: huge_number_def huge_value_def)

lemma starts_with_self: "starts_with p (p @ r)"
  by (induction p) simp_all

lemma py_contains_suffix: "py_contains p (xs @ p)"
proof (induction xs)
  case Nil
  show ?case using starts_with_self [of p "[]"] by (cases p) simp_all
next
  case (Cons x xs)
  then show ?case by simp
qed

lemma huge_mph_contains: "py_contains mph (py_lower huge_mph_tag)"
proof -
  have "py_lower huge_mph_tag = (huge_number @ [0x20]) @ mph"
    by (simp add: py_lower_def huge_mph_tag_def huge_number_def mph_def lower_char_def)
  then show ?thesis by (simp only: py_contains_suffix)
qed

lemma py_split_huge_mph: "py_split huge_mph_tag = [huge_number, mph]"
  unfolding huge_mph_tag_def
  by (rule py_split_word_unit)
     (auto simp: huge_number_def mph_def is_space_def whitespace_points_def)

lemma py_split_huge: "py_split huge_number = [huge_number]"
  by (rule py_split_word) (auto simp: huge_number_def is_space_def whitespace_points_def)

lemma huge_no_mph: "\<not> py_contains mph (py_lower huge_number)"
proof -
  have l: "py_lower huge_number = 0x31 # replicate 309 0x30"
    by (simp add: py_lower_def huge_number_def lower_char_def)
  have z: "\<not> py_contains mph (replicate n 0x30)" for n
    by (induction n) (simp_all add: mph_def)
  show ?thesis unfolding l using z [of 309] by (simp add: mph_def del: replicate.simps)
qed

lemma bit_length_pos: "0 < n \<Longrightarrow> bit_length n = Suc (bit_length (n div 2))"
  by (subst bit_length.simps) simp

lemma bit_length_gt: "2 ^ k \<le> n \<Longrightarrow> k < bit_length n"
proof (induction k arbitrary: n)
  case 0
  then show ?case by (simp add: bit_length_pos)
next
  case (Suc k)
  then have "2 ^ k \<le> n div 2" by simp
  then have "k < bit_length (n div 2)" by (rule Suc.IH)
  moreover have "0 < n" using Suc.prems zero_less_power [of "2::int" "Suc k"] by linarith
  ultimately show ?case by (simp add: bit_length_pos)
qed

lemma bit_length_lower: "0 < n \<Longrightarrow> 2 ^ (bit_length n - 1) \<le> n"
proof (induction n rule: bit_length.induct)
  case (1 n)
  show ?case
  proof (cases "n div 2 \<le> 0")
    case True
    with "1.prems" have "n = 1" by simp
    then show ?thesis by (simp add: bit_length.simps)
  next
    case False
    then have h: "0 < n div 2" by simp
    have ih: "2 ^ (bit_length (n div 2) - 1) \<le> n div 2"
      using "1.IH" "1.prems" h by simp
    have "bit_length (n div 2) = Suc (bit_length (n div 2) - 1)"
      using bit_length_pos [OF h] by simp
    then have "(2::int) ^ bit_length (n div 2) = 2 * 2 ^ (bit_length (n div 2) - 1)"
      by (metis power_Suc)
    also have "\<dots> \<le> 2 * (n div 2)" using ih by simp
    also have "\<dots> \<le> n" by simp
    finally show ?thesis using "1.prems" by (simp add: bit_length_pos)
  qed
qed

lemma shift_round_even_ge: "n div 2 ^ d \<le> shift_round_even n d"
  by (simp add: shift_round_even_def Let_def)

lemma round53_lower:
  assumes "2 ^ k \<le> n" and "52 \<le> k"
  shows "2 ^ k \<le> fst (round53 n) * 2 ^ snd (round53 n)"
proof -
  let ?L = "bit_length n" and ?d = "bit_length n - 53"
  let ?s = "shift_round_even n ?d"
  have n: "0 < n" using assms(1) zero_less_power [of "2::int" k] by linarith
  have L: "k < ?L" using assms(1) by (rule bit_length_gt)
  then have split: "?L - 1 = 52 + ?d" using assms(2) by simp
  have pw: "(2::int) ^ (52 + ?d) = 2 ^ 52 * 2 ^ ?d" by (rule power_add)
  have "(2::int) ^ (?L - 1) div 2 ^ ?d = 2 ^ 52"
    unfolding split pw by simp
  moreover have "(2::int) ^ (?L - 1) div 2 ^ ?d \<le> n div 2 ^ ?d"
    using bit_length_lower [OF n] by (intro zdiv_mono1) simp_all
  ultimately have "2 ^ 52 \<le> ?s"
    using shift_round_even_ge [of n ?d] by simp
  then have a: "2 ^ 52 * 2 ^ ?d \<le> ?s * (2::int) ^ ?d"
    by (intro mult_right_mono) simp_all
  have "(2::int) ^ k \<le> 2 ^ (52 + ?d)"
    using L by (intro power_increasing) simp_all
  then have b: "(2::int) ^ k \<le> 2 ^ 52 * 2 ^ ?d" unfolding pw .
  have rs: "round53 n = (?s, ?d)" by (simp add: round53_def Let_def)
  from b a show ?thesis unfolding rs fst_conv snd_conv by (rule order_trans)
qed

lemma float_of_int_overflow:
  assumes "2 ^ 1024 \<le> n"
  shows "float_of_int n = Inl OverflowError"
proof -
  have "0 < n" using assms zero_less_power [of "2::int" 1024] by linarith
  then have abs: "\<bar>n\<bar> = n" by simp
  obtain m d where r: "round53 n = (m, d)" by (cases "round53 n")
  have "2 ^ 1024 \<le> m * 2 ^ d"
    using round53_lower [OF assms] r by simp
  then show ?thesis by (simp add: float_of_int_def abs r)
qed

lemma huge_overflows: "float_of_int huge_value = Inl OverflowError"
  by (rule float_of_int_overflow) (simp add: huge_value_def)

lemma parse_huge_mph: "parse_maxspeed (Some huge_mph_tag) = Inl OverflowError"
proof -
  have "parse_maxspeed_body huge_mph_tag = Inl OverflowError"
    by (simp add: parse_maxspeed_body_def py_split_huge_mph py_int_huge huge_mph_contains
        huge_overflows)
  moreover have "huge_mph_tag \<noteq> []" by (simp add: huge_mph_tag_def huge_number_def)
  ultimately show ?thesis by (simp add: parse_maxspeed_def)
qed

lemma parse_huge: "parse_maxspeed (Some huge_number) = Inr (Some huge_value)"
proof -
  have "parse_maxspeed_body huge_number = Inr huge_value"
    by (simp add: parse_maxspeed_body_def py_split_huge py_int_huge huge_no_mph)
  moreover have "huge_number \<noteq> []" by (simp add: huge_number_def)
  ultimately show ?thesis by (simp add: parse_maxspeed_def)
qed

lemma huge_speed_tags_points:
  "code_points (huge_speed_tags ''maxspeed'') = Some huge_mph_tag"
  by (simp add: code_points_def huge_speed_tags_def huge_mph_tag_def huge_number_def mph_def)

text \<open>
  C9 states that for every raw maxspeed tag, normalization reads the first token as an
  integer, multiplies it by 1.60934 and truncates when the string contains \<^verbatim>\<open>mph\<close>, and
  gives absence rather than an error on a failure. On the tag made of the digit 1, 309
  zeros and \<^verbatim>\<open> mph\<close> the token is read (the same digits alone normalize to 10 ^ 309),
  but \<^verbatim>\<open>speed * 1.60934\<close> raises \<^verbatim>\<open>OverflowError\<close>, which the \<^verbatim>\<open>except\<close> clause for
  \<^verbatim>\<open>ValueError\<close> and \<^verbatim>\<open>IndexError\<close> lets through: the function raises, and with it
  \<^verbatim>\<open>extract_tags\<close> on a way that carries the tag.
\<close>

theorem huge_mph_tag_raises_overflow:
  "parse_maxspeed (Some huge_mph_tag) = Inl OverflowError
   \<and> parse_maxspeed (Some huge_number) = Inr (Some (10 ^ 309))
   \<and> code_points (huge_speed_tags ''maxspeed'') = Some huge_mph_tag
   \<and> way_edge (\<lambda>s. None) huge_speed_tags 1 = Inl OverflowError"
proof -
  have "extract_tags (\<lambda>s. None) huge_speed_tags = Inl OverflowError"
    by (simp add: extract_tags_def huge_speed_tags_points parse_huge_mph)
  then have "way_edge (\<lambda>s. None) huge_speed_tags 1 = Inl OverflowError"
    by (simp add: way_edge_def)
  with parse_huge_mph parse_huge [unfolded huge_value_def] huge_speed_tags_points
  show ?thesis by (intro conjI)
qed

end
